theory Spec2Isabelle
  imports Main
begin

section \<open>JavaScript values and the built-ins the handler uses\<close>

text \<open>
  The handler of \<^verbatim>\<open>src/handler.ts\<close> works on untyped JavaScript values: the parsed
  request body is \<^verbatim>\<open>any\<close>, and so are the items the store hands back. A value is
  \<^verbatim>\<open>undefined\<close>, or one of the values of JSON. A number \<open>JNum n\<close> stands for a
  JavaScript number that is a safe integer (\<open>\<bar>n\<bar> < 2 ^ 53\<close>); the handler never
  computes with numbers, and other numbers are not represented. An object is the list of
  its own properties in enumeration order.
\<close>

datatype json =
    JUndefined
  | JNull
  | JBool bool
  | JNum int
  | JStr string
  | JArr "json list"
  | JObj "(string \<times> json) list"

text \<open>A thrown value: an \<^verbatim>\<open>Error\<close> with its \<^verbatim>\<open>name\<close>, \<^verbatim>\<open>message\<close> and \<^verbatim>\<open>stack\<close>.\<close>

datatype js_error = Error (name: string) (message: string) (stack: string)

text \<open>JavaScript's truthiness, as used by \<^verbatim>\<open>!x\<close>, \<^verbatim>\<open>x || y\<close>, \<^verbatim>\<open>x && y\<close> and \<^verbatim>\<open>x ? a : b\<close>.\<close>

fun truthy :: "json \<Rightarrow> bool" where
  "truthy JUndefined = False"
| "truthy JNull = False"
| "truthy (JBool b) = b"
| "truthy (JNum n) = (n \<noteq> 0)"
| "truthy (JStr s) = (s \<noteq> [])"
| "truthy (JArr xs) = True"
| "truthy (JObj kvs) = True"

text \<open>
  The property read \<^verbatim>\<open>body.title\<close>: a \<^verbatim>\<open>TypeError\<close> on \<^verbatim>\<open>null\<close> and \<^verbatim>\<open>undefined\<close>,
  the property's value on an object, and \<^verbatim>\<open>undefined\<close> where the property is missing
  (on a primitive or an array none of \<^verbatim>\<open>title\<close>, \<^verbatim>\<open>description\<close>, \<^verbatim>\<open>completed\<close> exists).
\<close>

definition TypeError :: "string \<Rightarrow> string \<Rightarrow> js_error" where
  \<open>TypeError what k =
     Error ''TypeError'' (''Cannot read properties of '' @ what @ '' (reading '' @ [CHR 0x27] @ k @ [CHR 0x27] @ '')'') []\<close>

fun get_prop :: "json \<Rightarrow> string \<Rightarrow> js_error + json" where
  "get_prop JUndefined k = Inl (TypeError ''undefined'' k)"
| "get_prop JNull k = Inl (TypeError ''null'' k)"
| "get_prop (JObj kvs) k = Inr (case map_of kvs k of None \<Rightarrow> JUndefined | Some v \<Rightarrow> v)"
| "get_prop (JBool b) k = Inr JUndefined"
| "get_prop (JNum n) k = Inr JUndefined"
| "get_prop (JStr s) k = Inr JUndefined"
| "get_prop (JArr xs) k = Inr JUndefined"

subsection \<open>\<^verbatim>\<open>JSON.stringify\<close>\<close>

fun join :: "string \<Rightarrow> string list \<Rightarrow> string" where
  "join sep [] = []"
| "join sep [x] = x"
| "join sep (x # y # ys) = x @ sep @ join sep (y # ys)"

fun show_nat :: "nat \<Rightarrow> string" where
  "show_nat n =
     (if n < 10 then [''0123456789'' ! n]
      else show_nat (n div 10) @ [''0123456789'' ! (n mod 10)])"

declare show_nat.simps [simp del]

text \<open>
  The text of a number. Within the safe integers this is what \<^verbatim>\<open>JSON.stringify\<close> prints;
  from \<open>10 ^ 21\<close> on JavaScript prints an exponent form, which is outside what \<open>JNum\<close>
  stands for.
\<close>

definition show_int :: "int \<Rightarrow> string" where
  "show_int i = (if i < 0 then ''-'' @ show_nat (nat (- i)) else show_nat (nat i))"

definition escape :: "char \<Rightarrow> string" where
  \<open>escape c =
     (if c = CHR 0x22 then [CHR 0x5C, CHR 0x22]
      else if c = CHR 0x5C then [CHR 0x5C, CHR 0x5C]
      else if c = CHR 0x08 then [CHR 0x5C, CHR ''b'']
      else if c = CHR 0x0C then [CHR 0x5C, CHR ''f'']
      else if c = CHR 0x0A then [CHR 0x5C, CHR ''n'']
      else if c = CHR 0x0D then [CHR 0x5C, CHR ''r'']
      else if c = CHR 0x09 then [CHR 0x5C, CHR ''t'']
      else if (of_char c :: nat) < 32 then
        [CHR 0x5C, CHR ''u'', CHR ''0'', CHR ''0'',
         ''0123456789abcdef'' ! (of_char c div 16), ''0123456789abcdef'' ! (of_char c mod 16)]
      else [c])\<close>

definition quote :: "string \<Rightarrow> string" where
  \<open>quote s = [CHR 0x22] @ concat (map escape s) @ [CHR 0x22]\<close>

text \<open>
  Serialisation of a value that is not \<^verbatim>\<open>undefined\<close>: a property whose value is
  \<^verbatim>\<open>undefined\<close> is left out of an object, and an \<^verbatim>\<open>undefined\<close> array element is
  written \<^verbatim>\<open>null\<close>.
\<close>

fun stringify :: "json \<Rightarrow> string"
  and stringify_list :: "json list \<Rightarrow> string list"
  and stringify_members :: "(string \<times> json) list \<Rightarrow> string list" where
  "stringify JUndefined = ''null''"
| "stringify JNull = ''null''"
| "stringify (JBool b) = (if b then ''true'' else ''false'')"
| "stringify (JNum n) = show_int n"
| "stringify (JStr s) = quote s"
| "stringify (JArr xs) = ''['' @ join '','' (stringify_list xs) @ '']''"
| "stringify (JObj kvs) = ''{'' @ join '','' (stringify_members kvs) @ ''}''"
| "stringify_list [] = []"
| "stringify_list (x # xs) = stringify x # stringify_list xs"
| "stringify_members [] = []"
| "stringify_members ((k, v) # kvs) =
     (if v = JUndefined then stringify_members kvs
      else (quote k @ '':'' @ stringify v) # stringify_members kvs)"

text \<open>\<^verbatim>\<open>JSON.stringify(v)\<close> is \<^verbatim>\<open>undefined\<close> (here \<open>None\<close>) when \<open>v\<close> is.\<close>

definition JSON_stringify :: "json \<Rightarrow> string option" where
  "JSON_stringify v = (if v = JUndefined then None else Some (stringify v))"

section \<open>Requests, responses and the collaborators\<close>

text \<open>The fields of \<^verbatim>\<open>APIGatewayProxyEvent\<close> that the handler reads.\<close>

record event =
  httpMethod :: string
  path :: string
  pathParameters :: "(string \<times> string) list option"
  body :: "string option"

text \<open>\<^verbatim>\<open>APIGatewayProxyResult\<close>; \<open>resBody\<close> is its \<^verbatim>\<open>body\<close>.\<close>

record response =
  statusCode :: nat
  headers :: "(string \<times> string) list"
  resBody :: "string option"

text \<open>
  \<^verbatim>\<open>interface Todo\<close>. At run time \<^verbatim>\<open>title\<close> and \<^verbatim>\<open>description\<close> hold whatever value the
  request body carried.
\<close>

record Todo =
  todoId :: string
  title :: json
  description :: json
  completed :: bool
  createdAt :: string
  updatedAt :: string

definition todo_json :: "Todo \<Rightarrow> json" where
  "todo_json t =
     JObj [(''todoId'', JStr (todoId t)), (''title'', title t), (''description'', description t),
           (''completed'', JBool (completed t)), (''createdAt'', JStr (createdAt t)),
           (''updatedAt'', JStr (updatedAt t))]"

text \<open>The input of \<^verbatim>\<open>UpdateCommand\<close>.\<close>

record update_input =
  TableName :: string
  Key :: "string option"
  UpdateExpression :: string
  ExpressionAttributeValues :: "(string \<times> json) list"
  ExpressionAttributeNames :: "(string \<times> string) list option"
  ReturnValues :: string

text \<open>
  The commands sent to the document client. A key is \<^verbatim>\<open>{ todoId }\<close>, where \<^verbatim>\<open>todoId\<close>
  may be \<^verbatim>\<open>undefined\<close> (\<open>None\<close>). \<open>DeleteCommand\<close> carries table, key and condition
  expression.
\<close>

datatype db_command =
    GetCommand string "string option"
  | PutCommand string Todo
  | ScanCommand string
  | UpdateCommand update_input
  | DeleteCommand string "string option" string

text \<open>The fields of a store result that the handler reads.\<close>

record db_output =
  Item :: json
  Items :: "json list option"
  Attributes :: json

text \<open>The input of \<^verbatim>\<open>PutMetricDataCommand\<close> (one datum).\<close>

record metric_command =
  Namespace :: string
  MetricName :: string
  Value :: int
  Unit :: string
  Timestamp :: string

text \<open>
  The collaborators, each an arbitrary function: the table name of the configuration,
  \<^verbatim>\<open>JSON.parse\<close> (which throws on malformed text), the clock (\<open>now e n\<close> is what the
  \<open>n\<close>-th \<^verbatim>\<open>new Date()\<close> shows), the identifier generator (\<open>uuid e n\<close> is the \<open>n\<close>-th
  \<^verbatim>\<open>uuidv4()\<close>), the store (a command resolves with a result or rejects with an error)
  and the metrics sink.
\<close>

record env =
  TABLE_NAME :: string
  JSON_parse :: "string \<Rightarrow> js_error + json"
  now :: "nat \<Rightarrow> string"
  uuid :: "nat \<Rightarrow> string"
  dynamoDb :: "db_command \<Rightarrow> js_error + db_output"
  cloudWatch :: "metric_command \<Rightarrow> js_error + unit"

text \<open>
  What a request leaves behind: the number of clock readings and identifiers drawn so far,
  the commands sent to the store and to the metrics sink, and the lines printed.
\<close>

record world =
  ticks :: nat
  drawn :: nat
  store_calls :: "db_command list"
  metric_calls :: "metric_command list"
  console :: "string list"

definition new_Date :: "env \<Rightarrow> world \<Rightarrow> string \<times> world" where
  "new_Date e w = (now e (ticks w), w\<lparr>ticks := Suc (ticks w)\<rparr>)"

definition uuidv4 :: "env \<Rightarrow> world \<Rightarrow> string \<times> world" where
  "uuidv4 e w = (uuid e (drawn w), w\<lparr>drawn := Suc (drawn w)\<rparr>)"

definition send :: "env \<Rightarrow> db_command \<Rightarrow> world \<Rightarrow> (js_error + db_output) \<times> world" where
  "send e c w = (dynamoDb e c, w\<lparr>store_calls := store_calls w @ [c]\<rparr>)"

section \<open>The handler\<close>

definition log :: "env \<Rightarrow> string \<Rightarrow> string \<Rightarrow> json \<Rightarrow> world \<Rightarrow> world" where
  "log e level msg data w =
     (let (timestamp, w1) = new_Date e w;
          logEntry = JObj ([(''timestamp'', JStr timestamp), (''level'', JStr level),
                            (''message'', JStr msg)]
                           @ (if truthy data then [(''data'', data)] else []))
      in w1\<lparr>console := console w1 @ [stringify logEntry]\<rparr>)"

definition putMetric :: "env \<Rightarrow> string \<Rightarrow> int \<Rightarrow> world \<Rightarrow> world" where
  "putMetric e metricName v w =
     (let (t, w1) = new_Date e w;
          c = \<lparr>Namespace = ''TodoApp'', MetricName = metricName, Value = v,
               Unit = ''Count'', Timestamp = t\<rparr>;
          w2 = w1\<lparr>metric_calls := metric_calls w1 @ [c]\<rparr>
      in case cloudWatch e c of
           Inr u \<Rightarrow> w2
         | Inl err \<Rightarrow>
             log e ''error'' ''Failed to put metric'' (JObj [(''error'', JStr (message err))]) w2)"

definition createResponse :: "nat \<Rightarrow> json \<Rightarrow> response" where
  "createResponse code b =
     \<lparr>statusCode = code,
      headers = [(''Content-Type'', ''application/json''),
                 (''Access-Control-Allow-Origin'', ''*''),
                 (''Access-Control-Allow-Methods'', ''GET,POST,PUT,DELETE,OPTIONS'')],
      resBody = JSON_stringify b\<rparr>"

text \<open>\<^verbatim>\<open>event.body || '{}'\<close>: a \<^verbatim>\<open>null\<close> or empty body is read as the empty object's text.\<close>

definition body_text :: "event \<Rightarrow> string" where
  "body_text ev = (case body ev of None \<Rightarrow> ''{}'' | Some s \<Rightarrow> if s = [] then ''{}'' else s)"

text \<open>A \<^verbatim>\<open>string | undefined\<close> as a value.\<close>

definition js_string :: "string option \<Rightarrow> json" where
  "js_string s = (case s of None \<Rightarrow> JUndefined | Some x \<Rightarrow> JStr x)"

definition createTodo :: "env \<Rightarrow> event \<Rightarrow> world \<Rightarrow> (js_error + response) \<times> world" where
  "createTodo e ev w =
     (case JSON_parse e (body_text ev) of
        Inl err \<Rightarrow> (Inl err, w)
      | Inr b \<Rightarrow>
         (case get_prop b ''title'' of
            Inl err \<Rightarrow> (Inl err, w)
          | Inr t \<Rightarrow>
             if \<not> truthy t then
               (Inr (createResponse 400 (JObj [(''error'', JStr ''Title is required'')])), w)
             else
               (let (i, w1) = uuidv4 e w
                in case get_prop b ''description'' of
                     Inl err \<Rightarrow> (Inl err, w1)
                   | Inr d \<Rightarrow>
                      (let (c, w2) = new_Date e w1;
                           (u, w3) = new_Date e w2;
                           todo = \<lparr>todoId = i, title = t,
                                   description = (if truthy d then d else JStr []),
                                   completed = False, createdAt = c, updatedAt = u\<rparr>;
                           (r, w4) = send e (PutCommand (TABLE_NAME e) todo) w3
                       in case r of
                            Inl err \<Rightarrow> (Inl err, w4)
                          | Inr out \<Rightarrow>
                             (let w5 = putMetric e ''TodoCreatedCount'' 1 w4;
                                  w6 = log e ''info'' ''Todo created''
                                         (JObj [(''todoId'', JStr i)]) w5
                              in (Inr (createResponse 201 (todo_json todo)), w6))))))"

definition getTodo :: "env \<Rightarrow> string \<Rightarrow> world \<Rightarrow> (js_error + response) \<times> world" where
  "getTodo e i w =
     (let (r, w1) = send e (GetCommand (TABLE_NAME e) (Some i)) w
      in case r of
           Inl err \<Rightarrow> (Inl err, w1)
         | Inr result \<Rightarrow>
            if \<not> truthy (Item result) then
              (Inr (createResponse 404 (JObj [(''error'', JStr ''Todo not found'')])), w1)
            else
              (Inr (createResponse 200 (Item result)),
               log e ''info'' ''Todo retrieved'' (JObj [(''todoId'', JStr i)]) w1))"

definition listTodos :: "env \<Rightarrow> world \<Rightarrow> (js_error + response) \<times> world" where
  "listTodos e w =
     (let (r, w1) = send e (ScanCommand (TABLE_NAME e)) w
      in case r of
           Inl err \<Rightarrow> (Inl err, w1)
         | Inr result \<Rightarrow>
            (let n = (case Items result of None \<Rightarrow> 0 | Some xs \<Rightarrow> int (length xs));
                 todos = (case Items result of None \<Rightarrow> [] | Some xs \<Rightarrow> xs)
             in (Inr (createResponse 200 (JObj [(''todos'', JArr todos)])),
                 log e ''info'' ''Todos listed'' (JObj [(''count'', JNum n)]) w1)))"

text \<open>
  The three lists that \<^verbatim>\<open>updateTodo\<close> builds, after the tests on \<^verbatim>\<open>title\<close>,
  \<^verbatim>\<open>description\<close> and \<^verbatim>\<open>completed\<close>: the clauses of the update expression, the attribute
  names and the attribute values.
\<close>

definition update_fields ::
  "json \<Rightarrow> json \<Rightarrow> json \<Rightarrow> string list \<times> (string \<times> string) list \<times> (string \<times> json) list" where
  "update_fields t d c =
     (let (ue0, names0, values0) = ([], [], []);
          (ue1, names1, values1) =
            (if t \<noteq> JUndefined
             then (ue0 @ [''#title = :title''], names0 @ [(''#title'', ''title'')],
                   values0 @ [('':title'', t)])
             else (ue0, names0, values0));
          (ue2, names2, values2) =
            (if d \<noteq> JUndefined
             then (ue1 @ [''description = :description''], names1,
                   values1 @ [('':description'', d)])
             else (ue1, names1, values1));
          (ue3, names3, values3) =
            (if c \<noteq> JUndefined
             then (ue2 @ [''completed = :completed''], names2,
                   values2 @ [('':completed'', c)])
             else (ue2, names2, values2))
      in (ue3, names3, values3))"

text \<open>
  The input of the \<^verbatim>\<open>UpdateCommand\<close> that \<^verbatim>\<open>updateTodo\<close> sends, once \<^verbatim>\<open>updatedAt\<close> has
  been added with the clock reading \<open>u\<close>.
\<close>

definition update_command ::
  "env \<Rightarrow> string option \<Rightarrow> json \<Rightarrow> json \<Rightarrow> json \<Rightarrow> string \<Rightarrow> update_input" where
  "update_command e i t d c u =
     (let (updateExpression, expressionAttributeNames, expressionAttributeValues) =
            update_fields t d c
      in \<lparr>TableName = TABLE_NAME e, Key = i,
          UpdateExpression =
            ''SET '' @ join '', '' (updateExpression @ [''updatedAt = :updatedAt'']),
          ExpressionAttributeValues = expressionAttributeValues @ [('':updatedAt'', JStr u)],
          ExpressionAttributeNames =
            (if length expressionAttributeNames > 0 then Some expressionAttributeNames else None),
          ReturnValues = ''ALL_NEW''\<rparr>)"

definition updateTodo ::
  "env \<Rightarrow> string option \<Rightarrow> event \<Rightarrow> world \<Rightarrow> (js_error + response) \<times> world" where
  "updateTodo e i ev w =
     (case JSON_parse e (body_text ev) of
        Inl err \<Rightarrow> (Inl err, w)
      | Inr b \<Rightarrow>
         (case get_prop b ''title'' of
            Inl err \<Rightarrow> (Inl err, w)
          | Inr t \<Rightarrow>
         (case get_prop b ''description'' of
            Inl err \<Rightarrow> (Inl err, w)
          | Inr d \<Rightarrow>
         (case get_prop b ''completed'' of
            Inl err \<Rightarrow> (Inl err, w)
          | Inr c \<Rightarrow>
             if length (fst (update_fields t d c)) = 0 then
               (Inr (createResponse 400 (JObj [(''error'', JStr ''No valid fields to update'')])), w)
             else
               (let (u, w1) = new_Date e w;
                    (r, w2) = send e (UpdateCommand (update_command e i t d c u)) w1
                in case r of
                     Inr result \<Rightarrow>
                       (Inr (createResponse 200 (Attributes result)),
                        log e ''info'' ''Todo updated'' (JObj [(''todoId'', js_string i)]) w2)
                   | Inl err \<Rightarrow>
                       if name err = ''ValidationException'' then
                         (Inr (createResponse 404 (JObj [(''error'', JStr ''Todo not found'')])), w2)
                       else (Inl err, w2))))))"

definition deleteTodo :: "env \<Rightarrow> string option \<Rightarrow> world \<Rightarrow> (js_error + response) \<times> world" where
  "deleteTodo e i w =
     (let (r, w1) = send e (DeleteCommand (TABLE_NAME e) i ''attribute_exists(todoId)'') w
      in case r of
           Inr result \<Rightarrow>
             (Inr (createResponse 204 (JObj [])),
              log e ''info'' ''Todo deleted'' (JObj [(''todoId'', js_string i)]) w1)
         | Inl err \<Rightarrow>
             if name err = ''ConditionalCheckFailedException'' then
               (Inr (createResponse 404 (JObj [(''error'', JStr ''Todo not found'')])), w1)
             else (Inl err, w1))"

text \<open>\<^verbatim>\<open>event.pathParameters?.id\<close>.\<close>

definition path_id :: "event \<Rightarrow> string option" where
  "path_id ev = (case pathParameters ev of None \<Rightarrow> None | Some pp \<Rightarrow> map_of pp ''id'')"

text \<open>The \<^verbatim>\<open>switch\<close> inside the \<^verbatim>\<open>try\<close> block of \<^verbatim>\<open>main\<close>.\<close>

definition dispatch ::
  "env \<Rightarrow> string \<Rightarrow> string option \<Rightarrow> event \<Rightarrow> world \<Rightarrow> (js_error + response) \<times> world" where
  "dispatch e method i ev w =
     (if method = ''POST'' then createTodo e ev w
      else if method = ''GET'' then
        (case i of
           None \<Rightarrow> listTodos e w
         | Some s \<Rightarrow> if s \<noteq> [] then getTodo e s w else listTodos e w)
      else if method = ''PUT'' then updateTodo e i ev w
      else if method = ''DELETE'' then deleteTodo e i w
      else (Inr (createResponse 405 (JObj [(''error'', JStr ''Method not allowed'')])), w))"

text \<open>Line 70 of the handler: the request is logged before the \<^verbatim>\<open>try\<close> block.\<close>

definition received :: "env \<Rightarrow> event \<Rightarrow> world \<Rightarrow> world" where
  "received e ev w =
     log e ''info'' ''Request received''
       (JObj [(''method'', JStr (httpMethod ev)), (''path'', JStr (path ev)),
              (''todoId'', js_string (path_id ev))]) w"

definition main :: "env \<Rightarrow> event \<Rightarrow> world \<Rightarrow> response \<times> world" where
  "main e ev w =
     (let method = httpMethod ev;
          i = path_id ev;
          w1 = received e ev w;
          (r, w2) = dispatch e method i ev w1
      in case r of
           Inr res \<Rightarrow> (res, w2)
         | Inl err \<Rightarrow>
            (createResponse 500 (JObj [(''error'', JStr ''Internal server error'')]),
             log e ''error'' ''Request failed''
               (JObj [(''error'', JStr (message err)), (''stack'', JStr (stack err))]) w2))"

section \<open>The store's reading of an update expression\<close>

text \<open>
  What the store does with the \<^verbatim>\<open>UpdateCommand\<close> is outside the handler. To say which
  attributes a command assigns, its expression is read the way the store reads a
  \<^verbatim>\<open>SET\<close> action: the text after \<^verbatim>\<open>SET\<close> is cut at each \<^verbatim>\<open>", "\<close>, each clause is cut at its
  \<^verbatim>\<open>" = "\<close>, a left side starting with \<^verbatim>\<open>#\<close> is looked up in the attribute names, and the
  right side is looked up in the attribute values. An expression with a clause that cannot
  be read this way is rejected (\<open>None\<close>).
\<close>

fun split_clauses :: "string \<Rightarrow> string \<Rightarrow> string list" where
  "split_clauses acc [] = [rev acc]"
| "split_clauses acc [x] = [rev (x # acc)]"
| "split_clauses acc (x # y # zs) =
     (if x = CHR '','' \<and> y = CHR '' '' then rev acc # split_clauses [] zs
      else split_clauses (x # acc) (y # zs))"

fun split_assign :: "string \<Rightarrow> string \<Rightarrow> (string \<times> string) option" where
  "split_assign acc (x # y # z # zs) =
     (if x = CHR '' '' \<and> y = CHR ''='' \<and> z = CHR '' '' then Some (rev acc, zs)
      else split_assign (x # acc) (y # z # zs))"
| "split_assign acc zs = None"

definition resolve_name :: "(string \<times> string) list option \<Rightarrow> string \<Rightarrow> string option" where
  "resolve_name names lhs =
     (case lhs of
        [] \<Rightarrow> None
      | x # xs \<Rightarrow>
          if x = CHR ''#'' then (case names of None \<Rightarrow> None | Some ns \<Rightarrow> map_of ns lhs)
          else Some lhs)"

definition read_clause :: "update_input \<Rightarrow> string \<Rightarrow> (string \<times> json) option" where
  "read_clause u clause =
     (case split_assign [] clause of
        None \<Rightarrow> None
      | Some (lhs, rhs) \<Rightarrow>
         (case resolve_name (ExpressionAttributeNames u) lhs of
            None \<Rightarrow> None
          | Some a \<Rightarrow>
             (case map_of (ExpressionAttributeValues u) rhs of
                None \<Rightarrow> None
              | Some v \<Rightarrow> Some (a, v))))"

definition set_assignments :: "update_input \<Rightarrow> (string \<times> json) list option" where
  "set_assignments u =
     (if take 4 (UpdateExpression u) = ''SET ''
      then those (map (read_clause u) (split_clauses [] (drop 4 (UpdateExpression u))))
      else None)"

text \<open>The item after the assignments: each named attribute is overwritten, in order.\<close>

fun assign :: "(string \<times> json) list \<Rightarrow> (string \<rightharpoonup> json) \<Rightarrow> (string \<rightharpoonup> json)" where
  "assign [] item = item"
| "assign ((a, v) # as) item = assign as (item(a \<mapsto> v))"

definition apply_update :: "update_input \<Rightarrow> (string \<rightharpoonup> json) \<Rightarrow> (string \<rightharpoonup> json) option" where
  "apply_update u item =
     (case set_assignments u of None \<Rightarrow> None | Some as \<Rightarrow> Some (assign as item))"

text \<open>
  The store errors that the handler answers with 404: \<^verbatim>\<open>ValidationException\<close> on an
  update, \<^verbatim>\<open>ConditionalCheckFailedException\<close> on a delete.
\<close>

fun not_found :: "db_command \<Rightarrow> js_error \<Rightarrow> bool" where
  "not_found (UpdateCommand u) err = (name err = ''ValidationException'')"
| "not_found (DeleteCommand t k c) err = (name err = ''ConditionalCheckFailedException'')"
| "not_found (GetCommand t k) err = False"
| "not_found (PutCommand t i) err = False"
| "not_found (ScanCommand t) err = False"

section \<open>Example collaborators and requests\<close>

text \<open>
  Concrete collaborators on which the theorems below are instantiated: a parser that knows
  a few request bodies, a store that resolves every command with an empty result (or
  rejects every command), a clock that advances between its second and third reading, and
  a counter in place of the identifier generator.
\<close>

definition example_parse :: "string \<Rightarrow> js_error + json" where
  \<open>example_parse s =
     (if s = ''{}'' then Inr (JObj [])
      else if s = ''null'' then Inr JNull
      else if s = ''{"title":"Test Todo"}'' then Inr (JObj [(''title'', JStr ''Test Todo'')])
      else if s = ''{"title":"a","description":false}''
        then Inr (JObj [(''title'', JStr ''a''), (''description'', JBool False)])
      else if s = ''{"title":"","completed":false}''
        then Inr (JObj [(''title'', JStr []), (''completed'', JBool False)])
      else Inl (Error ''SyntaxError'' ''Unexpected token'' []))\<close>

definition store_resolves :: "db_command \<Rightarrow> js_error + db_output" where
  "store_resolves c = Inr \<lparr>Item = JUndefined, Items = None, Attributes = JUndefined\<rparr>"

definition store_rejects :: "db_command \<Rightarrow> js_error + db_output" where
  "store_rejects c = Inl (Error ''Error'' ''Database error'' [])"

definition sink_resolves :: "metric_command \<Rightarrow> js_error + unit" where
  "sink_resolves c = Inr ()"

definition sink_rejects :: "metric_command \<Rightarrow> js_error + unit" where
  "sink_rejects c = Inl (Error ''Error'' ''CloudWatch unavailable'' [])"

definition example_clock :: "nat \<Rightarrow> string" where
  "example_clock n =
     (if n < 2 then ''2024-01-01T00:00:00.999Z'' else ''2024-01-01T00:00:01.000Z'')"

definition example_uuid :: "nat \<Rightarrow> string" where
  "example_uuid n = ''id-'' @ show_nat n"

definition example_env :: env where
  "example_env =
     \<lparr>TABLE_NAME = ''Todos'', JSON_parse = example_parse, now = example_clock,
      uuid = example_uuid, dynamoDb = store_resolves, cloudWatch = sink_resolves\<rparr>"

definition start :: world where
  "start = \<lparr>ticks = 0, drawn = 0, store_calls = [], metric_calls = [], console = []\<rparr>"

definition post_empty :: event where
  "post_empty =
     \<lparr>httpMethod = ''POST'', path = ''/todos'', pathParameters = None, body = None\<rparr>"

definition post_falsy :: event where
  \<open>post_falsy =
     \<lparr>httpMethod = ''POST'', path = ''/todos'', pathParameters = None,
      body = Some ''{"title":"a","description":false}''\<rparr>\<close>

definition post_todo :: event where
  \<open>post_todo =
     \<lparr>httpMethod = ''POST'', path = ''/todos'', pathParameters = None,
      body = Some ''{"title":"Test Todo"}''\<rparr>\<close>

definition delete_item :: event where
  "delete_item =
     \<lparr>httpMethod = ''DELETE'', path = ''/todos/123'',
      pathParameters = Some [(''id'', ''123'')], body = None\<rparr>"

definition store_condition_fails :: "db_command \<Rightarrow> js_error + db_output" where
  "store_condition_fails c =
     Inl (Error ''ConditionalCheckFailedException'' ''The conditional request failed'' [])"

definition get_list :: event where
  "get_list = \<lparr>httpMethod = ''GET'', path = ''/todos'', pathParameters = None, body = None\<rparr>"

definition store_items :: "db_command \<Rightarrow> js_error + db_output" where
  "store_items c =
     Inr \<lparr>Item = JUndefined,
          Items = Some [JObj [(''todoId'', JStr ''1''), (''title'', JStr ''Todo 1''),
                              (''completed'', JBool False)],
                        JObj [(''todoId'', JStr ''2''), (''title'', JStr ''Todo 2''),
                              (''completed'', JBool True)]],
          Attributes = JObj [(''todoId'', JStr ''123''), (''title'', JStr []),
                             (''completed'', JBool False)]\<rparr>"

definition put_fields :: event where
  \<open>put_fields =
     \<lparr>httpMethod = ''PUT'', path = ''/todos/123'', pathParameters = Some [(''id'', ''123'')],
      body = Some ''{"title":"","completed":false}''\<rparr>\<close>

definition put_empty :: event where
  \<open>put_empty =
     \<lparr>httpMethod = ''PUT'', path = ''/todos/123'', pathParameters = Some [(''id'', ''123'')],
      body = Some ''{}''\<rparr>\<close>

definition put_no_id :: event where
  \<open>put_no_id =
     \<lparr>httpMethod = ''PUT'', path = ''/todos'', pathParameters = None,
      body = Some ''{"title":"","completed":false}''\<rparr>\<close>

definition delete_no_id :: event where
  "delete_no_id =
     \<lparr>httpMethod = ''DELETE'', path = ''/todos'', pathParameters = None, body = None\<rparr>"

definition post_malformed :: event where
  "post_malformed =
     \<lparr>httpMethod = ''POST'', path = ''/todos'', pathParameters = None, body = Some ''{''\<rparr>"

definition post_null :: event where
  "post_null =
     \<lparr>httpMethod = ''POST'', path = ''/todos'', pathParameters = None, body = Some ''null''\<rparr>"

definition put_null :: event where
  "put_null =
     \<lparr>httpMethod = ''PUT'', path = ''/todos/123'', pathParameters = Some [(''id'', ''123'')],
      body = Some ''null''\<rparr>"

definition store_validation_fails :: "db_command \<Rightarrow> js_error + db_output" where
  "store_validation_fails c =
     Inl (Error ''ValidationException'' ''The provided key element does not match the schema'' [])"

definition stored_item :: "string \<rightharpoonup> json" where
  "stored_item =
     map_of [(''todoId'', JStr ''123''), (''title'', JStr ''Old title''),
             (''description'', JStr ''kept''), (''completed'', JBool True),
             (''createdAt'', JStr ''2023-12-31T00:00:00.000Z''),
             (''updatedAt'', JStr ''2023-12-31T00:00:00.000Z'')]"

section \<open>Basic facts\<close>

lemmas example_defs = example_env_def example_parse_def store_resolves_def store_rejects_def
  store_condition_fails_def store_validation_fails_def
  sink_resolves_def sink_rejects_def example_clock_def example_uuid_def start_def

lemmas handler_defs = main_def received_def dispatch_def createTodo_def getTodo_def
  listTodos_def updateTodo_def deleteTodo_def update_command_def update_fields_def path_id_def
  body_text_def js_string_def send_def new_Date_def uuidv4_def putMetric_def log_def
  createResponse_def JSON_stringify_def todo_json_def quote_def escape_def show_int_def Let_def

text \<open>Logging and metric emission leave the store untouched; each log line reads the clock once.\<close>

lemma log_store_calls [simp]: "store_calls (log e l m d w) = store_calls w"
  by (simp add: log_def new_Date_def Let_def)

lemma log_metric_calls [simp]: "metric_calls (log e l m d w) = metric_calls w"
  by (simp add: log_def new_Date_def Let_def)

lemma log_drawn [simp]: "drawn (log e l m d w) = drawn w"
  by (simp add: log_def new_Date_def Let_def)

lemma log_ticks [simp]: "ticks (log e l m d w) = Suc (ticks w)"
  by (simp add: log_def new_Date_def Let_def)

lemma received_store_calls [simp]: "store_calls (received e ev w) = store_calls w"
  by (simp add: received_def)

lemma received_metric_calls [simp]: "metric_calls (received e ev w) = metric_calls w"
  by (simp add: received_def)

lemma received_drawn [simp]: "drawn (received e ev w) = drawn w"
  by (simp add: received_def)

lemma received_ticks [simp]: "ticks (received e ev w) = Suc (ticks w)"
  by (simp add: received_def)

lemma putMetric_store_calls [simp]: "store_calls (putMetric e n v w) = store_calls w"
  by (simp add: putMetric_def new_Date_def Let_def split: sum.splits)

lemma putMetric_drawn [simp]: "drawn (putMetric e n v w) = drawn w"
  by (simp add: putMetric_def new_Date_def Let_def split: sum.splits)

lemma putMetric_metric_calls [simp]:
  "metric_calls (putMetric e n v w) =
     metric_calls w @ [\<lparr>Namespace = ''TodoApp'', MetricName = n, Value = v, Unit = ''Count'',
                        Timestamp = now e (ticks w)\<rparr>]"
  by (simp add: putMetric_def new_Date_def Let_def split: sum.splits)

text \<open>\<^verbatim>\<open>main\<close> is the \<^verbatim>\<open>switch\<close> with the \<^verbatim>\<open>catch\<close> around it.\<close>

lemma main_eq:
  "main e ev w =
     (case fst (dispatch e (httpMethod ev) (path_id ev) ev (received e ev w)) of
        Inr res \<Rightarrow> (res, snd (dispatch e (httpMethod ev) (path_id ev) ev (received e ev w)))
      | Inl err \<Rightarrow>
          (createResponse 500 (JObj [(''error'', JStr ''Internal server error'')]),
           log e ''error'' ''Request failed''
             (JObj [(''error'', JStr (message err)), (''stack'', JStr (stack err))])
             (snd (dispatch e (httpMethod ev) (path_id ev) ev (received e ev w)))))"
  by (simp add: main_def Let_def split_beta)

subsection \<open>Every response is built by \<^verbatim>\<open>createResponse\<close>\<close>

lemma headers_createResponse:
  "headers (createResponse code b) =
     [(''Content-Type'', ''application/json''),
      (''Access-Control-Allow-Origin'', ''*''),
      (''Access-Control-Allow-Methods'', ''GET,POST,PUT,DELETE,OPTIONS'')]"
  by (simp add: createResponse_def)

lemma createTodo_built:
  "fst (createTodo e ev w) = Inr r \<Longrightarrow> \<exists>code b. r = createResponse code b"
  by (auto simp: createTodo_def Let_def send_def uuidv4_def new_Date_def
      split: sum.splits if_splits prod.splits)

lemma getTodo_built:
  "fst (getTodo e i w) = Inr r \<Longrightarrow> \<exists>code b. r = createResponse code b"
  by (auto simp: getTodo_def Let_def send_def split: sum.splits if_splits prod.splits)

lemma listTodos_built:
  "fst (listTodos e w) = Inr r \<Longrightarrow> \<exists>code b. r = createResponse code b"
  by (auto simp: listTodos_def Let_def send_def split: sum.splits if_splits prod.splits)

lemma updateTodo_built:
  "fst (updateTodo e i ev w) = Inr r \<Longrightarrow> \<exists>code b. r = createResponse code b"
  by (auto simp: updateTodo_def Let_def send_def new_Date_def
      split: sum.splits if_splits prod.splits)

lemma deleteTodo_built:
  "fst (deleteTodo e i w) = Inr r \<Longrightarrow> \<exists>code b. r = createResponse code b"
  by (auto simp: deleteTodo_def Let_def send_def split: sum.splits if_splits prod.splits)

lemma dispatch_built:
  "fst (dispatch e m i ev w) = Inr r \<Longrightarrow> \<exists>code b. r = createResponse code b"
  by (auto simp: dispatch_def split: if_splits option.splits
      dest: createTodo_built getTodo_built listTodos_built updateTodo_built deleteTodo_built)

lemma main_built: "\<exists>code b. fst (main e ev w) = createResponse code b"
proof (cases "fst (dispatch e (httpMethod ev) (path_id ev) ev (received e ev w))")
  case (Inl err)
  then show ?thesis by (auto simp: main_eq)
next
  case (Inr r)
  from dispatch_built [OF Inr] Inr show ?thesis by (auto simp: main_eq)
qed

section \<open>The claims\<close>

text \<open>
  C8. Every response of the dispatcher, whatever the operation and its outcome, carries
  the headers \<^verbatim>\<open>Content-Type: application/json\<close>, \<^verbatim>\<open>Access-Control-Allow-Origin: *\<close> and
  \<^verbatim>\<open>Access-Control-Allow-Methods: GET,POST,PUT,DELETE,OPTIONS\<close>.
\<close>

theorem main_headers:
  "headers (fst (main e ev w)) =
     [(''Content-Type'', ''application/json''),
      (''Access-Control-Allow-Origin'', ''*''),
      (''Access-Control-Allow-Methods'', ''GET,POST,PUT,DELETE,OPTIONS'')]"
proof -
  obtain code b where "fst (main e ev w) = createResponse code b"
    using main_built by blast
  then show ?thesis by (simp add: headers_createResponse)
qed

theorem main_headers_witness:
  "map_of (headers (fst (main example_env post_empty start))) ''Content-Type''
     = Some ''application/json''
   \<and> map_of (headers (fst (main (example_env\<lparr>dynamoDb := store_rejects\<rparr>) post_falsy start)))
       ''Access-Control-Allow-Origin'' = Some ''*''"
  using main_headers [of example_env post_empty start]
    main_headers [of "example_env\<lparr>dynamoDb := store_rejects\<rparr>" post_falsy start]
  by simp

subsection \<open>Create\<close>

lemma createTodo_valid:
  assumes "JSON_parse e (body_text ev) = Inr b"
    and "get_prop b ''title'' = Inr t" and "truthy t"
    and "get_prop b ''description'' = Inr d"
    and "todo = \<lparr>todoId = uuid e (drawn w), title = t,
                 description = (if truthy d then d else JStr []), completed = False,
                 createdAt = now e (ticks w), updatedAt = now e (Suc (ticks w))\<rparr>"
  shows "fst (createTodo e ev w) =
           (case dynamoDb e (PutCommand (TABLE_NAME e) todo) of
              Inl err \<Rightarrow> Inl err
            | Inr out \<Rightarrow> Inr (createResponse 201 (todo_json todo)))"
    and "store_calls (snd (createTodo e ev w)) = store_calls w @ [PutCommand (TABLE_NAME e) todo]"
    and "drawn (snd (createTodo e ev w)) = Suc (drawn w)"
  using assms
  by (simp_all add: createTodo_def uuidv4_def new_Date_def send_def Let_def split: sum.splits)

lemma main_POST:
  assumes "httpMethod ev = ''POST''"
  shows "fst (main e ev w) =
           (case fst (createTodo e ev (received e ev w)) of
              Inr r \<Rightarrow> r
            | Inl err \<Rightarrow> createResponse 500 (JObj [(''error'', JStr ''Internal server error'')]))"
    and "store_calls (snd (main e ev w)) = store_calls (snd (createTodo e ev (received e ev w)))"
    and "metric_calls (snd (main e ev w)) = metric_calls (snd (createTodo e ev (received e ev w)))"
    and "drawn (snd (main e ev w)) = drawn (snd (createTodo e ev (received e ev w)))"
  using assms by (simp_all add: main_eq dispatch_def split: sum.splits)

lemma todo_text:
  assumes "truthy t"
  shows \<open>JSON_stringify (todo_json \<lparr>todoId = i, title = t,
             description = (if truthy d then d else JStr []),
             completed = False, createdAt = c, updatedAt = u\<rparr>) =
         Some (''{"todoId":'' @ quote i @ '',"title":'' @ stringify t
                   @ '',"description":'' @ stringify (if truthy d then d else JStr [])
                   @ '',"completed":false,"createdAt":'' @ quote c
                   @ '',"updatedAt":'' @ quote u @ ''}'')\<close>
proof -
  have t: "t \<noteq> JUndefined" using assms by auto
  have d: "(if truthy d then d else JStr []) \<noteq> JUndefined" by auto
  have k: \<open>quote ''todoId'' = ''"todoId"''\<close> \<open>quote ''title'' = ''"title"''\<close>
    \<open>quote ''description'' = ''"description"''\<close> \<open>quote ''completed'' = ''"completed"''\<close>
    \<open>quote ''createdAt'' = ''"createdAt"''\<close> \<open>quote ''updatedAt'' = ''"updatedAt"''\<close>
    by (simp_all add: quote_def escape_def)
  show ?thesis using t d
    by (simp add: JSON_stringify_def todo_json_def k)
qed

text \<open>
  C1. A create request whose parsed body has a truthy \<^verbatim>\<open>title\<close> sends one \<^verbatim>\<open>PutCommand\<close>
  with the new item. When the store accepts the write the answer is status 201 with the
  created item as body; when the store rejects it the answer is the 500 of the top-level
  handler. The item's \<^verbatim>\<open>todoId\<close> is the identifier drawn from the generator for this
  request, \<^verbatim>\<open>completed\<close> is \<^verbatim>\<open>false\<close>, \<^verbatim>\<open>description\<close> is the body's description when that is
  truthy and the empty string otherwise, and \<^verbatim>\<open>createdAt\<close> and \<^verbatim>\<open>updatedAt\<close> are two
  successive readings of the clock, equal when the clock shows the same instant at both.
\<close>

theorem create_with_title:
  assumes "httpMethod ev = ''POST''"
    and "JSON_parse e (body_text ev) = Inr b"
    and "get_prop b ''title'' = Inr t" and "truthy t"
    and "get_prop b ''description'' = Inr d"
    and "todo = \<lparr>todoId = uuid e (drawn w), title = t,
                 description = (if truthy d then d else JStr []), completed = False,
                 createdAt = now e (Suc (ticks w)), updatedAt = now e (Suc (Suc (ticks w)))\<rparr>"
  shows \<open>(dynamoDb e (PutCommand (TABLE_NAME e) todo) = Inr out \<longrightarrow>
          fst (main e ev w) = createResponse 201 (todo_json todo)
          \<and> statusCode (fst (main e ev w)) = 201
          \<and> resBody (fst (main e ev w)) =
              Some (''{"todoId":'' @ quote (uuid e (drawn w)) @ '',"title":'' @ stringify t
                    @ '',"description":'' @ stringify (if truthy d then d else JStr [])
                    @ '',"completed":false,"createdAt":'' @ quote (now e (Suc (ticks w)))
                    @ '',"updatedAt":'' @ quote (now e (Suc (Suc (ticks w)))) @ ''}''))
     \<and> (dynamoDb e (PutCommand (TABLE_NAME e) todo) = Inl err \<longrightarrow>
          fst (main e ev w) =
            \<lparr>statusCode = 500,
             headers = [(''Content-Type'', ''application/json''),
                        (''Access-Control-Allow-Origin'', ''*''),
                        (''Access-Control-Allow-Methods'', ''GET,POST,PUT,DELETE,OPTIONS'')],
             resBody = Some ''{"error":"Internal server error"}''\<rparr>)
     \<and> store_calls (snd (main e ev w)) = store_calls w @ [PutCommand (TABLE_NAME e) todo]
     \<and> drawn (snd (main e ev w)) = Suc (drawn w)
     \<and> (now e (Suc (ticks w)) = now e (Suc (Suc (ticks w))) \<longrightarrow> createdAt todo = updatedAt todo)\<close>
proof -
  let ?w = "received e ev w"
  have todo: "todo = \<lparr>todoId = uuid e (drawn ?w), title = t,
                 description = (if truthy d then d else JStr []), completed = False,
                 createdAt = now e (ticks ?w), updatedAt = now e (Suc (ticks ?w))\<rparr>"
    using assms(6) by simp
  note c = createTodo_valid [OF assms(2-5) todo]
  have ok: \<open>fst (main e ev w) = createResponse 201 (todo_json todo)
          \<and> statusCode (fst (main e ev w)) = 201
          \<and> resBody (fst (main e ev w)) =
              Some (''{"todoId":'' @ quote (uuid e (drawn w)) @ '',"title":'' @ stringify t
                    @ '',"description":'' @ stringify (if truthy d then d else JStr [])
                    @ '',"completed":false,"createdAt":'' @ quote (now e (Suc (ticks w)))
                    @ '',"updatedAt":'' @ quote (now e (Suc (Suc (ticks w)))) @ ''}'')\<close>
    if acc: "dynamoDb e (PutCommand (TABLE_NAME e) todo) = Inr out"
  proof -
    have r: "fst (main e ev w) = createResponse 201 (todo_json todo)"
      using assms(1) acc c(1) by (simp add: main_POST)
    have b: \<open>resBody (fst (main e ev w)) =
           Some (''{"todoId":'' @ quote (uuid e (drawn w)) @ '',"title":'' @ stringify t
                 @ '',"description":'' @ stringify (if truthy d then d else JStr [])
                 @ '',"completed":false,"createdAt":'' @ quote (now e (Suc (ticks w)))
                 @ '',"updatedAt":'' @ quote (now e (Suc (Suc (ticks w)))) @ ''}'')\<close>
      unfolding r assms(6)
      by (simp only: createResponse_def response.simps todo_text [OF assms(4)])
    have s: "statusCode (fst (main e ev w)) = 201"
      unfolding r by (simp add: createResponse_def)
    from r s b show ?thesis by blast
  qed
  have bad: \<open>fst (main e ev w) =
            \<lparr>statusCode = 500,
             headers = [(''Content-Type'', ''application/json''),
                        (''Access-Control-Allow-Origin'', ''*''),
                        (''Access-Control-Allow-Methods'', ''GET,POST,PUT,DELETE,OPTIONS'')],
             resBody = Some ''{"error":"Internal server error"}''\<rparr>\<close>
    if rej: "dynamoDb e (PutCommand (TABLE_NAME e) todo) = Inl err"
    using assms(1) rej c(1)
    by (simp add: main_POST createResponse_def JSON_stringify_def quote_def escape_def)
  have calls: "store_calls (snd (main e ev w)) = store_calls w @ [PutCommand (TABLE_NAME e) todo]"
    using c(2) assms(1) by (simp add: main_POST)
  have n: "drawn (snd (main e ev w)) = Suc (drawn w)"
    using c(3) assms(1) by (simp add: main_POST)
  have eq: "now e (Suc (ticks w)) = now e (Suc (Suc (ticks w))) \<longrightarrow> createdAt todo = updatedAt todo"
    by (simp add: assms(6))
  from ok bad calls n eq show ?thesis by blast
qed

theorem create_with_title_witness:
  \<open>httpMethod post_todo = ''POST''
   \<and> JSON_parse example_env (body_text post_todo) = Inr (JObj [(''title'', JStr ''Test Todo'')])
   \<and> get_prop (JObj [(''title'', JStr ''Test Todo'')]) ''title'' = Inr (JStr ''Test Todo'')
   \<and> truthy (JStr ''Test Todo'')
   \<and> get_prop (JObj [(''title'', JStr ''Test Todo'')]) ''description'' = Inr JUndefined
   \<and> dynamoDb example_env (PutCommand (TABLE_NAME example_env)
        \<lparr>todoId = ''id-0'', title = JStr ''Test Todo'', description = JStr [],
         completed = False, createdAt = ''2024-01-01T00:00:00.999Z'',
         updatedAt = ''2024-01-01T00:00:01.000Z''\<rparr>)
       = Inr \<lparr>Item = JUndefined, Items = None, Attributes = JUndefined\<rparr>
   \<and> statusCode (fst (main example_env post_todo start)) = 201
   \<and> resBody (fst (main example_env post_todo start)) =
       Some ''{"todoId":"id-0","title":"Test Todo","description":"","completed":false,"createdAt":"2024-01-01T00:00:00.999Z","updatedAt":"2024-01-01T00:00:01.000Z"}''
   \<and> drawn (snd (main example_env post_todo start)) = 1
   \<and> dynamoDb (example_env\<lparr>dynamoDb := store_rejects\<rparr>)
        (PutCommand (TABLE_NAME (example_env\<lparr>dynamoDb := store_rejects\<rparr>))
          \<lparr>todoId = ''id-0'', title = JStr ''Test Todo'', description = JStr [],
           completed = False, createdAt = ''2024-01-01T00:00:00.999Z'',
           updatedAt = ''2024-01-01T00:00:01.000Z''\<rparr>)
       = Inl (Error ''Error'' ''Database error'' [])
   \<and> statusCode (fst (main (example_env\<lparr>dynamoDb := store_rejects\<rparr>) post_todo start)) = 500
   \<and> resBody (fst (main (example_env\<lparr>dynamoDb := store_rejects\<rparr>) post_todo start))
       = Some ''{"error":"Internal server error"}''
   \<and> store_calls (snd (main (example_env\<lparr>dynamoDb := store_rejects\<rparr>) post_todo start))
       = [PutCommand ''Todos''
            \<lparr>todoId = ''id-0'', title = JStr ''Test Todo'', description = JStr [],
             completed = False, createdAt = ''2024-01-01T00:00:00.999Z'',
             updatedAt = ''2024-01-01T00:00:01.000Z''\<rparr>]\<close>
proof -
  let ?bad = "example_env\<lparr>dynamoDb := store_rejects\<rparr>"
  let ?todo = "\<lparr>todoId = ''id-0'', title = JStr ''Test Todo'', description = JStr [],
         completed = False, createdAt = ''2024-01-01T00:00:00.999Z'',
         updatedAt = ''2024-01-01T00:00:01.000Z''\<rparr>"
  have h: "httpMethod post_todo = ''POST''"
    "JSON_parse example_env (body_text post_todo) = Inr (JObj [(''title'', JStr ''Test Todo'')])"
    "get_prop (JObj [(''title'', JStr ''Test Todo'')]) ''title'' = Inr (JStr ''Test Todo'')"
    "truthy (JStr ''Test Todo'')"
    "get_prop (JObj [(''title'', JStr ''Test Todo'')]) ''description'' = Inr JUndefined"
    by (simp_all add: post_todo_def example_env_def example_parse_def body_text_def)
  have p: "JSON_parse ?bad (body_text post_todo) = Inr (JObj [(''title'', JStr ''Test Todo'')])"
    using h(2) by (simp add: example_env_def)
  have t: "?todo
       = \<lparr>todoId = uuid example_env (drawn start), title = JStr ''Test Todo'',
          description = (if truthy JUndefined then JUndefined else JStr []), completed = False,
          createdAt = now example_env (Suc (ticks start)),
          updatedAt = now example_env (Suc (Suc (ticks start)))\<rparr>"
    by (simp add: example_defs show_nat.simps)
  have t': "?todo
       = \<lparr>todoId = uuid ?bad (drawn start), title = JStr ''Test Todo'',
          description = (if truthy JUndefined then JUndefined else JStr []), completed = False,
          createdAt = now ?bad (Suc (ticks start)),
          updatedAt = now ?bad (Suc (Suc (ticks start)))\<rparr>"
    by (simp add: example_defs show_nat.simps)
  have s: "dynamoDb example_env (PutCommand (TABLE_NAME example_env) ?todo)
       = Inr \<lparr>Item = JUndefined, Items = None, Attributes = JUndefined\<rparr>"
    by (simp add: example_defs)
  have s': "dynamoDb ?bad (PutCommand (TABLE_NAME ?bad) ?todo)
       = Inl (Error ''Error'' ''Database error'' [])"
    by (simp add: example_defs)
  note a = create_with_title [OF h t,
      of "\<lparr>Item = JUndefined, Items = None, Attributes = JUndefined\<rparr>"]
  note b = create_with_title [OF h(1) p h(3-5) t',
      where err = "Error ''Error'' ''Database error'' []"]
  have c1: "statusCode (fst (main example_env post_todo start)) = 201"
    using a [THEN conjunct1] s by blast
  have c2: \<open>resBody (fst (main example_env post_todo start)) =
       Some ''{"todoId":"id-0","title":"Test Todo","description":"","completed":false,"createdAt":"2024-01-01T00:00:00.999Z","updatedAt":"2024-01-01T00:00:01.000Z"}''\<close>
  proof -
    have \<open>resBody (fst (main example_env post_todo start)) =
       Some (''{"todoId":'' @ quote (uuid example_env (drawn start)) @ '',"title":''
             @ stringify (JStr ''Test Todo'')
             @ '',"description":'' @ stringify (if truthy JUndefined then JUndefined else JStr [])
             @ '',"completed":false,"createdAt":'' @ quote (now example_env (Suc (ticks start)))
             @ '',"updatedAt":'' @ quote (now example_env (Suc (Suc (ticks start)))) @ ''}'')\<close>
      using a [THEN conjunct1] s by blast
    then show ?thesis
      by (simp add: quote_def escape_def example_defs show_nat.simps)
  qed
  have c3: "drawn (snd (main example_env post_todo start)) = 1"
    using a [THEN conjunct2, THEN conjunct2, THEN conjunct2, THEN conjunct1]
    by (simp add: start_def)
  have c4: \<open>fst (main ?bad post_todo start) =
            \<lparr>statusCode = 500,
             headers = [(''Content-Type'', ''application/json''),
                        (''Access-Control-Allow-Origin'', ''*''),
                        (''Access-Control-Allow-Methods'', ''GET,POST,PUT,DELETE,OPTIONS'')],
             resBody = Some ''{"error":"Internal server error"}''\<rparr>\<close>
    using b [THEN conjunct2, THEN conjunct1] s' by blast
  have c5: "statusCode (fst (main ?bad post_todo start)) = 500"
    and c6: \<open>resBody (fst (main ?bad post_todo start))
               = Some ''{"error":"Internal server error"}''\<close>
    by (simp_all add: c4)
  have c7: "store_calls (snd (main ?bad post_todo start)) = [PutCommand ''Todos'' ?todo]"
    using b [THEN conjunct2, THEN conjunct2, THEN conjunct1]
    by (simp add: example_env_def start_def)
  show ?thesis
    using h s c1 c2 c3 s' c5 c6 c7 by (intro conjI)
qed

text \<open>
  Without these qualifications the statement fails, in three ways. With the body
  \<^verbatim>\<open>{"title":"a","description":false}\<close> the description is present in the body, yet the
  created item carries the empty string; with a clock that advances between the two
  readings \<^verbatim>\<open>createdAt\<close> and \<^verbatim>\<open>updatedAt\<close> differ; and when the store rejects the write the
  answer is 500, not 201.
\<close>

theorem create_counterexample:
  \<open>httpMethod post_falsy = ''POST''
   \<and> JSON_parse example_env (body_text post_falsy)
       = Inr (JObj [(''title'', JStr ''a''), (''description'', JBool False)])
   \<and> get_prop (JObj [(''title'', JStr ''a''), (''description'', JBool False)]) ''title''
       = Inr (JStr ''a'')
   \<and> truthy (JStr ''a'')
   \<and> get_prop (JObj [(''title'', JStr ''a''), (''description'', JBool False)]) ''description''
       = Inr (JBool False)
   \<and> fst (main example_env post_falsy start) =
       \<lparr>statusCode = 201,
        headers = [(''Content-Type'', ''application/json''),
                   (''Access-Control-Allow-Origin'', ''*''),
                   (''Access-Control-Allow-Methods'', ''GET,POST,PUT,DELETE,OPTIONS'')],
        resBody = Some ''{"todoId":"id-0","title":"a","description":"","completed":false,"createdAt":"2024-01-01T00:00:00.999Z","updatedAt":"2024-01-01T00:00:01.000Z"}''\<rparr>
   \<and> statusCode (fst (main (example_env\<lparr>dynamoDb := store_rejects\<rparr>) post_falsy start)) = 500\<close>
  by (simp add: post_falsy_def example_defs handler_defs show_nat.simps)

lemma log_console:
  "console (log e l m d w) =
     console w @ [stringify (JObj ([(''timestamp'', JStr (now e (ticks w))), (''level'', JStr l),
                                    (''message'', JStr m)]
                                   @ (if truthy d then [(''data'', d)] else [])))]"
  by (simp add: log_def new_Date_def Let_def)

lemma putMetric_rejected:
  assumes "cloudWatch e \<lparr>Namespace = ''TodoApp'', MetricName = n, Value = v, Unit = ''Count'',
                          Timestamp = now e (ticks w)\<rparr> = Inl err"
  shows "console (putMetric e n v w) =
           console w @ [stringify (JObj [(''timestamp'', JStr (now e (Suc (ticks w)))),
                                         (''level'', JStr ''error''),
                                         (''message'', JStr ''Failed to put metric''),
                                         (''data'', JObj [(''error'', JStr (message err))])])]"
  using assms by (simp add: putMetric_def new_Date_def Let_def log_console)

lemma createTodo_console:
  assumes "JSON_parse e (body_text ev) = Inr b"
    and "get_prop b ''title'' = Inr t" and "truthy t"
    and "get_prop b ''description'' = Inr d"
    and "todo = \<lparr>todoId = uuid e (drawn w), title = t,
                 description = (if truthy d then d else JStr []), completed = False,
                 createdAt = now e (ticks w), updatedAt = now e (Suc (ticks w))\<rparr>"
    and "dynamoDb e (PutCommand (TABLE_NAME e) todo) = Inr out"
  shows "snd (createTodo e ev w) =
           log e ''info'' ''Todo created'' (JObj [(''todoId'', JStr (uuid e (drawn w)))])
             (putMetric e ''TodoCreatedCount'' 1
               (w\<lparr>drawn := Suc (drawn w), ticks := Suc (Suc (ticks w)),
                  store_calls := store_calls w @ [PutCommand (TABLE_NAME e) todo]\<rparr>))"
  using assms
  by (simp add: createTodo_def uuidv4_def new_Date_def send_def Let_def split: sum.splits)

lemma createTodo_sink:
  "fst (createTodo (e\<lparr>cloudWatch := cw\<rparr>) ev w) = fst (createTodo e ev w)"
  by (simp add: createTodo_def uuidv4_def new_Date_def send_def Let_def
      split: sum.splits)

lemma received_sink: "received (e\<lparr>cloudWatch := cw\<rparr>) ev w = received e ev w"
  by (simp add: received_def log_def new_Date_def)

lemma dispatch_sink:
  "fst (dispatch (e\<lparr>cloudWatch := cw\<rparr>) m i ev w) = fst (dispatch e m i ev w)"
  by (simp add: dispatch_def createTodo_sink getTodo_def listTodos_def updateTodo_def
      deleteTodo_def send_def new_Date_def update_command_def Let_def split_beta
      split: sum.splits option.splits)

lemma main_sink: "fst (main (e\<lparr>cloudWatch := cw\<rparr>) ev w) = fst (main e ev w)"
  by (simp add: main_eq received_sink dispatch_sink split: sum.splits)

text \<open>
  C7. On a create request with a valid title whose item the store has accepted, a failure
  of the metrics sink on the \<^verbatim>\<open>TodoCreatedCount\<close> counter is caught inside \<^verbatim>\<open>putMetric\<close>
  and logged as \<^verbatim>\<open>Failed to put metric\<close>; the request still returns 201, with the very
  response a working sink would have given.
\<close>

theorem metric_failure_is_swallowed:
  assumes "httpMethod ev = ''POST''"
    and "JSON_parse e (body_text ev) = Inr b"
    and "get_prop b ''title'' = Inr t" and "truthy t"
    and "get_prop b ''description'' = Inr d"
    and "todo = \<lparr>todoId = uuid e (drawn w), title = t,
                 description = (if truthy d then d else JStr []), completed = False,
                 createdAt = now e (Suc (ticks w)), updatedAt = now e (Suc (Suc (ticks w)))\<rparr>"
    and "dynamoDb e (PutCommand (TABLE_NAME e) todo) = Inr out"
    and "cloudWatch e \<lparr>Namespace = ''TodoApp'', MetricName = ''TodoCreatedCount'', Value = 1,
                        Unit = ''Count'', Timestamp = now e (Suc (Suc (Suc (ticks w))))\<rparr> = Inl err"
  shows "statusCode (fst (main e ev w)) = 201
     \<and> fst (main e ev w) = fst (main (e\<lparr>cloudWatch := sink_resolves\<rparr>) ev w)
     \<and> metric_calls (snd (main e ev w)) =
         metric_calls w @ [\<lparr>Namespace = ''TodoApp'', MetricName = ''TodoCreatedCount'', Value = 1,
                            Unit = ''Count'', Timestamp = now e (Suc (Suc (Suc (ticks w))))\<rparr>]
     \<and> stringify (JObj [(''timestamp'', JStr (now e (Suc (Suc (Suc (Suc (ticks w))))))),
                        (''level'', JStr ''error''),
                        (''message'', JStr ''Failed to put metric''),
                        (''data'', JObj [(''error'', JStr (message err))])])
         \<in> set (console (snd (main e ev w)))"
proof -
  let ?w = "received e ev w"
  have todo: "todo = \<lparr>todoId = uuid e (drawn ?w), title = t,
                 description = (if truthy d then d else JStr []), completed = False,
                 createdAt = now e (ticks ?w), updatedAt = now e (Suc (ticks ?w))\<rparr>"
    using assms(6) by simp
  note c = createTodo_valid [OF assms(2-5) todo]
  have r: "fst (main e ev w) = createResponse 201 (todo_json todo)"
    using assms(1,7) c(1) by (simp add: main_POST)
  have s: "statusCode (fst (main e ev w)) = 201"
    unfolding r by (simp add: createResponse_def)
  define w' where "w' = ?w\<lparr>drawn := Suc (drawn ?w), ticks := Suc (Suc (ticks ?w)),
                  store_calls := store_calls ?w @ [PutCommand (TABLE_NAME e) todo]\<rparr>"
  have w': "snd (createTodo e ev ?w) =
           log e ''info'' ''Todo created'' (JObj [(''todoId'', JStr (uuid e (drawn ?w)))])
             (putMetric e ''TodoCreatedCount'' 1 w')"
     "ticks w' = Suc (Suc (ticks ?w))" "console w' = console ?w" "metric_calls w' = metric_calls ?w"
    using createTodo_console [OF assms(2-5) todo assms(7)] by (simp_all add: w'_def)
  have rej: "cloudWatch e \<lparr>Namespace = ''TodoApp'', MetricName = ''TodoCreatedCount'', Value = 1,
                        Unit = ''Count'', Timestamp = now e (ticks w')\<rparr> = Inl err"
    using assms(8) w'(2) by simp
  have m: "metric_calls (snd (main e ev w)) =
         metric_calls w @ [\<lparr>Namespace = ''TodoApp'', MetricName = ''TodoCreatedCount'', Value = 1,
                            Unit = ''Count'', Timestamp = now e (Suc (Suc (Suc (ticks w))))\<rparr>]"
    using assms(1) w' by (simp add: main_POST)
  have snd_main: "snd (main e ev w) = snd (createTodo e ev ?w)"
    using assms(1,7) c(1) by (simp add: main_eq dispatch_def)
  have l: "stringify (JObj [(''timestamp'', JStr (now e (Suc (Suc (Suc (Suc (ticks w))))))),
                        (''level'', JStr ''error''),
                        (''message'', JStr ''Failed to put metric''),
                        (''data'', JObj [(''error'', JStr (message err))])])
         \<in> set (console (snd (main e ev w)))"
    unfolding snd_main w'(1) log_console putMetric_rejected [OF rej] using w'(2) by simp
  from s m l show ?thesis
    by (simp add: main_sink)
qed

theorem metric_failure_is_swallowed_witness:
  \<open>httpMethod post_todo = ''POST''
   \<and> JSON_parse (example_env\<lparr>cloudWatch := sink_rejects\<rparr>) (body_text post_todo)
       = Inr (JObj [(''title'', JStr ''Test Todo'')])
   \<and> get_prop (JObj [(''title'', JStr ''Test Todo'')]) ''title'' = Inr (JStr ''Test Todo'')
   \<and> truthy (JStr ''Test Todo'')
   \<and> cloudWatch (example_env\<lparr>cloudWatch := sink_rejects\<rparr>)
        \<lparr>Namespace = ''TodoApp'', MetricName = ''TodoCreatedCount'', Value = 1,
         Unit = ''Count'', Timestamp = ''2024-01-01T00:00:01.000Z''\<rparr>
       = Inl (Error ''Error'' ''CloudWatch unavailable'' [])
   \<and> statusCode (fst (main (example_env\<lparr>cloudWatch := sink_rejects\<rparr>) post_todo start)) = 201
   \<and> metric_calls (snd (main (example_env\<lparr>cloudWatch := sink_rejects\<rparr>) post_todo start))
       = [\<lparr>Namespace = ''TodoApp'', MetricName = ''TodoCreatedCount'', Value = 1,
           Unit = ''Count'', Timestamp = ''2024-01-01T00:00:01.000Z''\<rparr>]
   \<and> ''{"timestamp":"2024-01-01T00:00:01.000Z","level":"error","message":"Failed to put metric","data":{"error":"CloudWatch unavailable"}}''
       \<in> set (console (snd (main (example_env\<lparr>cloudWatch := sink_rejects\<rparr>) post_todo start)))\<close>
proof -
  let ?e = "example_env\<lparr>cloudWatch := sink_rejects\<rparr>"
  have h: "httpMethod post_todo = ''POST''"
    "JSON_parse ?e (body_text post_todo) = Inr (JObj [(''title'', JStr ''Test Todo'')])"
    "get_prop (JObj [(''title'', JStr ''Test Todo'')]) ''title'' = Inr (JStr ''Test Todo'')"
    "truthy (JStr ''Test Todo'')"
    "get_prop (JObj [(''title'', JStr ''Test Todo'')]) ''description'' = Inr JUndefined"
    by (simp_all add: post_todo_def example_env_def example_parse_def body_text_def)
  have s: "dynamoDb ?e (PutCommand (TABLE_NAME ?e)
        \<lparr>todoId = uuid ?e (drawn start), title = JStr ''Test Todo'',
          description = (if truthy JUndefined then JUndefined else JStr []), completed = False,
          createdAt = now ?e (Suc (ticks start)),
          updatedAt = now ?e (Suc (Suc (ticks start)))\<rparr>)
       = Inr \<lparr>Item = JUndefined, Items = None, Attributes = JUndefined\<rparr>"
    by (simp add: example_defs)
  have m: "cloudWatch ?e \<lparr>Namespace = ''TodoApp'', MetricName = ''TodoCreatedCount'', Value = 1,
         Unit = ''Count'', Timestamp = now ?e (Suc (Suc (Suc (ticks start))))\<rparr>
       = Inl (Error ''Error'' ''CloudWatch unavailable'' [])"
    by (simp add: example_defs)
  note t = metric_failure_is_swallowed [OF h refl s m]
  have c1: "statusCode (fst (main ?e post_todo start)) = 201"
    using t [THEN conjunct1] by simp
  have c2: "metric_calls (snd (main ?e post_todo start))
       = [\<lparr>Namespace = ''TodoApp'', MetricName = ''TodoCreatedCount'', Value = 1,
           Unit = ''Count'', Timestamp = ''2024-01-01T00:00:01.000Z''\<rparr>]"
    using t [THEN conjunct2, THEN conjunct2, THEN conjunct1] by (simp add: example_defs)
  have c3: \<open>''{"timestamp":"2024-01-01T00:00:01.000Z","level":"error","message":"Failed to put metric","data":{"error":"CloudWatch unavailable"}}''
       \<in> set (console (snd (main ?e post_todo start)))\<close>
    using t [THEN conjunct2, THEN conjunct2, THEN conjunct2]
    by (simp add: example_defs quote_def escape_def)
  have m': "cloudWatch ?e
        \<lparr>Namespace = ''TodoApp'', MetricName = ''TodoCreatedCount'', Value = 1,
         Unit = ''Count'', Timestamp = ''2024-01-01T00:00:01.000Z''\<rparr>
       = Inl (Error ''Error'' ''CloudWatch unavailable'' [])"
    by (simp add: example_defs)
  show ?thesis
    using h(1-4) m' c1 c2 c3 by (intro conjI)
qed

lemma createTodo_null:
  "JSON_parse e (body_text ev) = Inr JNull \<Longrightarrow>
   createTodo e ev w = (Inl (TypeError ''null'' ''title''), w)"
  by (simp add: createTodo_def)

lemma get_prop_readable:
  "(\<exists>t. get_prop b k = Inr t) \<longleftrightarrow> b \<noteq> JNull \<and> b \<noteq> JUndefined"
  by (cases b) simp_all

text \<open>
  C4. A create request whose parsed body is not \<^verbatim>\<open>null\<close> and has a missing or falsy
  \<^verbatim>\<open>title\<close> (reading \<^verbatim>\<open>body.title\<close> gives \<^verbatim>\<open>undefined\<close>, \<^verbatim>\<open>null\<close>, \<^verbatim>\<open>false\<close>, \<^verbatim>\<open>0\<close> or the empty
  string) is answered with status 400 and body \<^verbatim>\<open>{"error":"Title is required"}\<close>. A create
  request whose body parses to \<^verbatim>\<open>null\<close> has no properties: reading its title throws, and
  the answer is the 500 of the top-level handler. In both cases no command is sent to the
  store and no metric is emitted. The title can be read exactly when the parsed body is
  neither \<^verbatim>\<open>null\<close> nor \<^verbatim>\<open>undefined\<close>.
\<close>

theorem create_without_title:
  assumes "httpMethod ev = ''POST''"
    and "JSON_parse e (body_text ev) = Inr b"
  shows \<open>(get_prop b ''title'' = Inr t \<and> \<not> truthy t \<longrightarrow>
           fst (main e ev w) =
             \<lparr>statusCode = 400,
              headers = [(''Content-Type'', ''application/json''),
                         (''Access-Control-Allow-Origin'', ''*''),
                         (''Access-Control-Allow-Methods'', ''GET,POST,PUT,DELETE,OPTIONS'')],
              resBody = Some ''{"error":"Title is required"}''\<rparr>
           \<and> store_calls (snd (main e ev w)) = store_calls w
           \<and> metric_calls (snd (main e ev w)) = metric_calls w)
     \<and> (b = JNull \<longrightarrow>
           fst (main e ev w) =
             \<lparr>statusCode = 500,
              headers = [(''Content-Type'', ''application/json''),
                         (''Access-Control-Allow-Origin'', ''*''),
                         (''Access-Control-Allow-Methods'', ''GET,POST,PUT,DELETE,OPTIONS'')],
              resBody = Some ''{"error":"Internal server error"}''\<rparr>
           \<and> store_calls (snd (main e ev w)) = store_calls w
           \<and> metric_calls (snd (main e ev w)) = metric_calls w)
     \<and> ((\<exists>x. get_prop b ''title'' = Inr x) \<longleftrightarrow> b \<noteq> JNull \<and> b \<noteq> JUndefined)\<close>
proof -
  have falsy: \<open>fst (main e ev w) =
             \<lparr>statusCode = 400,
              headers = [(''Content-Type'', ''application/json''),
                         (''Access-Control-Allow-Origin'', ''*''),
                         (''Access-Control-Allow-Methods'', ''GET,POST,PUT,DELETE,OPTIONS'')],
              resBody = Some ''{"error":"Title is required"}''\<rparr>
           \<and> store_calls (snd (main e ev w)) = store_calls w
           \<and> metric_calls (snd (main e ev w)) = metric_calls w\<close>
    if r: "get_prop b ''title'' = Inr t" "\<not> truthy t"
  proof -
    have "createTodo e ev (received e ev w) =
            (Inr (createResponse 400 (JObj [(''error'', JStr ''Title is required'')])),
             received e ev w)"
      using assms(2) r by (simp add: createTodo_def)
    then show ?thesis
      using assms(1)
      by (simp add: main_POST createResponse_def JSON_stringify_def quote_def escape_def)
  qed
  have null: \<open>fst (main e ev w) =
             \<lparr>statusCode = 500,
              headers = [(''Content-Type'', ''application/json''),
                         (''Access-Control-Allow-Origin'', ''*''),
                         (''Access-Control-Allow-Methods'', ''GET,POST,PUT,DELETE,OPTIONS'')],
              resBody = Some ''{"error":"Internal server error"}''\<rparr>
           \<and> store_calls (snd (main e ev w)) = store_calls w
           \<and> metric_calls (snd (main e ev w)) = metric_calls w\<close>
    if n: "b = JNull"
  proof -
    have "createTodo e ev (received e ev w) = (Inl (TypeError ''null'' ''title''), received e ev w)"
      using assms(2) n by (simp add: createTodo_null)
    then show ?thesis
      using assms(1)
      by (simp add: main_POST createResponse_def JSON_stringify_def quote_def escape_def)
  qed
  from falsy null get_prop_readable [of b "''title''"] show ?thesis by blast
qed

theorem create_without_title_witness:
  \<open>httpMethod post_empty = ''POST''
   \<and> JSON_parse example_env (body_text post_empty) = Inr (JObj [])
   \<and> get_prop (JObj []) ''title'' = Inr JUndefined
   \<and> \<not> truthy JUndefined
   \<and> statusCode (fst (main example_env post_empty start)) = 400
   \<and> resBody (fst (main example_env post_empty start)) = Some ''{"error":"Title is required"}''
   \<and> store_calls (snd (main example_env post_empty start)) = []
   \<and> metric_calls (snd (main example_env post_empty start)) = []
   \<and> httpMethod post_null = ''POST''
   \<and> JSON_parse example_env (body_text post_null) = Inr JNull
   \<and> statusCode (fst (main example_env post_null start)) = 500
   \<and> resBody (fst (main example_env post_null start))
       = Some ''{"error":"Internal server error"}''
   \<and> store_calls (snd (main example_env post_null start)) = []
   \<and> metric_calls (snd (main example_env post_null start)) = []\<close>
proof -
  have h: "httpMethod post_empty = ''POST''"
    "JSON_parse example_env (body_text post_empty) = Inr (JObj [])"
    "get_prop (JObj []) ''title'' = Inr JUndefined" "\<not> truthy JUndefined"
    by (simp_all add: post_empty_def example_env_def example_parse_def body_text_def)
  have g: "httpMethod post_null = ''POST''"
    "JSON_parse example_env (body_text post_null) = Inr JNull"
    by (simp_all add: post_null_def example_env_def example_parse_def body_text_def)
  note a = create_without_title [OF h(1,2), of JUndefined start, THEN conjunct1]
  note b = create_without_title [OF g, of JUndefined start, THEN conjunct2, THEN conjunct1]
  have c1: \<open>fst (main example_env post_empty start) =
             \<lparr>statusCode = 400,
              headers = [(''Content-Type'', ''application/json''),
                         (''Access-Control-Allow-Origin'', ''*''),
                         (''Access-Control-Allow-Methods'', ''GET,POST,PUT,DELETE,OPTIONS'')],
              resBody = Some ''{"error":"Title is required"}''\<rparr>\<close>
    and c2: "store_calls (snd (main example_env post_empty start)) = []"
    and c3: "metric_calls (snd (main example_env post_empty start)) = []"
    using a h(3,4) by (simp_all add: start_def)
  have d1: \<open>fst (main example_env post_null start) =
             \<lparr>statusCode = 500,
              headers = [(''Content-Type'', ''application/json''),
                         (''Access-Control-Allow-Origin'', ''*''),
                         (''Access-Control-Allow-Methods'', ''GET,POST,PUT,DELETE,OPTIONS'')],
              resBody = Some ''{"error":"Internal server error"}''\<rparr>\<close>
    and d2: "store_calls (snd (main example_env post_null start)) = []"
    and d3: "metric_calls (snd (main example_env post_null start)) = []"
    using b by (simp_all add: start_def)
  have c4: "statusCode (fst (main example_env post_empty start)) = 400"
    and c5: \<open>resBody (fst (main example_env post_empty start))
               = Some ''{"error":"Title is required"}''\<close>
    by (simp_all add: c1)
  have d4: "statusCode (fst (main example_env post_null start)) = 500"
    and d5: \<open>resBody (fst (main example_env post_null start))
               = Some ''{"error":"Internal server error"}''\<close>
    by (simp_all add: d1)
  show ?thesis
    using h c4 c5 c2 c3 g d4 d5 d2 d3 by (intro conjI)
qed

text \<open>
  A parsed body with no title is not always answered with 400: the body text \<^verbatim>\<open>null\<close>
  parses to \<^verbatim>\<open>null\<close>, which has no title, and the answer is 500.
\<close>

theorem create_null_body_counterexample:
  \<open>httpMethod post_null = ''POST''
   \<and> body post_null = Some ''null''
   \<and> JSON_parse example_env (body_text post_null) = Inr JNull
   \<and> get_prop JNull ''title'' = Inl (TypeError ''null'' ''title'')
   \<and> statusCode (fst (main example_env post_null start)) = 500
   \<and> resBody (fst (main example_env post_null start))
       = Some ''{"error":"Internal server error"}''\<close>
  by (simp add: post_null_def example_defs handler_defs)

subsection \<open>Delete\<close>

lemma main_DELETE:
  assumes "httpMethod ev = ''DELETE''"
  shows "fst (main e ev w) =
           (case fst (deleteTodo e (path_id ev) (received e ev w)) of
              Inr r \<Rightarrow> r
            | Inl err \<Rightarrow> createResponse 500 (JObj [(''error'', JStr ''Internal server error'')]))"
    and "store_calls (snd (main e ev w)) =
           store_calls (snd (deleteTodo e (path_id ev) (received e ev w)))"
  using assms by (simp_all add: main_eq dispatch_def split: sum.splits)

lemma deleteTodo_eq:
  "fst (deleteTodo e i w) =
     (case dynamoDb e (DeleteCommand (TABLE_NAME e) i ''attribute_exists(todoId)'') of
        Inr out \<Rightarrow> Inr (createResponse 204 (JObj []))
      | Inl err \<Rightarrow>
          if name err = ''ConditionalCheckFailedException''
          then Inr (createResponse 404 (JObj [(''error'', JStr ''Todo not found'')]))
          else Inl err)"
  "store_calls (snd (deleteTodo e i w)) =
     store_calls w @ [DeleteCommand (TABLE_NAME e) i ''attribute_exists(todoId)'']"
  by (simp_all add: deleteTodo_def send_def Let_def split: sum.splits)

text \<open>
  C3. A delete request sends one \<^verbatim>\<open>DeleteCommand\<close> to the store, conditioned on
  \<^verbatim>\<open>attribute_exists(todoId)\<close>. When the store rejects it with
  \<^verbatim>\<open>ConditionalCheckFailedException\<close> the answer is 404 with body
  \<^verbatim>\<open>{"error":"Todo not found"}\<close>; when the store accepts it the answer is 204, and the body
  is the text \<^verbatim>\<open>{}\<close> of the empty object; any other store error ends in the 500 of the
  top-level handler.
\<close>

theorem delete_outcomes:
  assumes "httpMethod ev = ''DELETE''"
  shows \<open>store_calls (snd (main e ev w)) =
           store_calls w @ [DeleteCommand (TABLE_NAME e) (path_id ev) ''attribute_exists(todoId)'']
     \<and> fst (main e ev w) =
         (case dynamoDb e (DeleteCommand (TABLE_NAME e) (path_id ev) ''attribute_exists(todoId)'') of
            Inr out \<Rightarrow>
              \<lparr>statusCode = 204,
               headers = [(''Content-Type'', ''application/json''),
                          (''Access-Control-Allow-Origin'', ''*''),
                          (''Access-Control-Allow-Methods'', ''GET,POST,PUT,DELETE,OPTIONS'')],
               resBody = Some ''{}''\<rparr>
          | Inl err \<Rightarrow>
              if name err = ''ConditionalCheckFailedException'' then
                \<lparr>statusCode = 404,
                 headers = [(''Content-Type'', ''application/json''),
                            (''Access-Control-Allow-Origin'', ''*''),
                            (''Access-Control-Allow-Methods'', ''GET,POST,PUT,DELETE,OPTIONS'')],
                 resBody = Some ''{"error":"Todo not found"}''\<rparr>
              else
                \<lparr>statusCode = 500,
                 headers = [(''Content-Type'', ''application/json''),
                            (''Access-Control-Allow-Origin'', ''*''),
                            (''Access-Control-Allow-Methods'', ''GET,POST,PUT,DELETE,OPTIONS'')],
                 resBody = Some ''{"error":"Internal server error"}''\<rparr>)\<close>
  using assms
  by (simp add: main_DELETE deleteTodo_eq createResponse_def JSON_stringify_def quote_def
      escape_def split: sum.splits)


theorem delete_outcomes_witness:
  \<open>httpMethod delete_item = ''DELETE''
   \<and> store_calls (snd (main example_env delete_item start))
       = [DeleteCommand ''Todos'' (Some ''123'') ''attribute_exists(todoId)'']
   \<and> statusCode (fst (main example_env delete_item start)) = 204
   \<and> resBody (fst (main example_env delete_item start)) = Some ''{}''
   \<and> statusCode (fst (main (example_env\<lparr>dynamoDb := store_condition_fails\<rparr>) delete_item start))
       = 404
   \<and> resBody (fst (main (example_env\<lparr>dynamoDb := store_condition_fails\<rparr>) delete_item start))
       = Some ''{"error":"Todo not found"}''\<close>
proof -
  have h: "httpMethod delete_item = ''DELETE''"
    by (simp add: delete_item_def)
  have i: "path_id delete_item = Some ''123''"
    by (simp add: delete_item_def path_id_def)
  note a = delete_outcomes [OF h, of example_env start]
  note b = delete_outcomes [OF h, of "example_env\<lparr>dynamoDb := store_condition_fails\<rparr>" start]
  have c1: "store_calls (snd (main example_env delete_item start))
       = [DeleteCommand ''Todos'' (Some ''123'') ''attribute_exists(todoId)'']"
    using a [THEN conjunct1] by (simp add: i example_defs)
  have c2: "fst (main example_env delete_item start) =
      \<lparr>statusCode = 204,
       headers = [(''Content-Type'', ''application/json''),
                  (''Access-Control-Allow-Origin'', ''*''),
                  (''Access-Control-Allow-Methods'', ''GET,POST,PUT,DELETE,OPTIONS'')],
       resBody = Some ''{}''\<rparr>"
    using a [THEN conjunct2] by (simp add: i example_defs)
  have c3: \<open>fst (main (example_env\<lparr>dynamoDb := store_condition_fails\<rparr>) delete_item start) =
      \<lparr>statusCode = 404,
       headers = [(''Content-Type'', ''application/json''),
                  (''Access-Control-Allow-Origin'', ''*''),
                  (''Access-Control-Allow-Methods'', ''GET,POST,PUT,DELETE,OPTIONS'')],
       resBody = Some ''{"error":"Todo not found"}''\<rparr>\<close>
    using b [THEN conjunct2] by (simp add: i example_defs store_condition_fails_def)
  show ?thesis using h c1 by (simp add: c2 c3)
qed

text \<open>
  The body of the 204 response is not empty: \<^verbatim>\<open>createResponse(204, {})\<close> serialises the
  empty object, and the body is the two characters \<^verbatim>\<open>{}\<close>.
\<close>

theorem delete_counterexample:
  \<open>httpMethod delete_item = ''DELETE''
   \<and> path_id delete_item = Some ''123''
   \<and> dynamoDb example_env (DeleteCommand ''Todos'' (Some ''123'') ''attribute_exists(todoId)'')
       = Inr \<lparr>Item = JUndefined, Items = None, Attributes = JUndefined\<rparr>
   \<and> statusCode (fst (main example_env delete_item start)) = 204
   \<and> resBody (fst (main example_env delete_item start)) = Some ''{}''
   \<and> resBody (fst (main example_env delete_item start)) \<noteq> Some []
   \<and> resBody (fst (main example_env delete_item start)) \<noteq> None\<close>
  by (simp add: delete_item_def example_defs handler_defs)

subsection \<open>List\<close>

lemma main_GET_list:
  assumes "httpMethod ev = ''GET''" and "path_id ev = None \<or> path_id ev = Some []"
  shows "fst (main e ev w) =
           (case fst (listTodos e (received e ev w)) of
              Inr r \<Rightarrow> r
            | Inl err \<Rightarrow> createResponse 500 (JObj [(''error'', JStr ''Internal server error'')]))"
    and "store_calls (snd (main e ev w)) = store_calls (snd (listTodos e (received e ev w)))"
  using assms by (auto simp: main_eq dispatch_def split: sum.splits)

lemma listTodos_eq:
  "fst (listTodos e w) =
     (case dynamoDb e (ScanCommand (TABLE_NAME e)) of
        Inr out \<Rightarrow>
          Inr (createResponse 200
                 (JObj [(''todos'', JArr (case Items out of None \<Rightarrow> [] | Some xs \<Rightarrow> xs))]))
      | Inl err \<Rightarrow> Inl err)"
  "store_calls (snd (listTodos e w)) = store_calls w @ [ScanCommand (TABLE_NAME e)]"
  by (simp_all add: listTodos_def send_def Let_def split: sum.splits)

text \<open>
  C9. A list request (a \<^verbatim>\<open>GET\<close> whose path carries no identifier) sends one
  \<^verbatim>\<open>ScanCommand\<close> to the store. When the scan succeeds the answer is 200 with body
  \<^verbatim>\<open>{"todos":[...]}\<close> holding every item the store returned, in the store's order; when the
  store returns an empty list or no list at all the body is \<^verbatim>\<open>{"todos":[]}\<close>. When the scan
  fails the answer is the 500 of the top-level handler.
\<close>

theorem list_outcomes:
  assumes "httpMethod ev = ''GET''" and "path_id ev = None \<or> path_id ev = Some []"
  shows \<open>store_calls (snd (main e ev w)) = store_calls w @ [ScanCommand (TABLE_NAME e)]
     \<and> fst (main e ev w) =
         (case dynamoDb e (ScanCommand (TABLE_NAME e)) of
            Inr out \<Rightarrow>
              \<lparr>statusCode = 200,
               headers = [(''Content-Type'', ''application/json''),
                          (''Access-Control-Allow-Origin'', ''*''),
                          (''Access-Control-Allow-Methods'', ''GET,POST,PUT,DELETE,OPTIONS'')],
               resBody = Some (''{"todos":[''
                 @ join '','' (stringify_list (case Items out of None \<Rightarrow> [] | Some xs \<Rightarrow> xs))
                 @ '']}'')\<rparr>
          | Inl err \<Rightarrow>
              \<lparr>statusCode = 500,
               headers = [(''Content-Type'', ''application/json''),
                          (''Access-Control-Allow-Origin'', ''*''),
                          (''Access-Control-Allow-Methods'', ''GET,POST,PUT,DELETE,OPTIONS'')],
               resBody = Some ''{"error":"Internal server error"}''\<rparr>)
     \<and> (\<forall>out. dynamoDb e (ScanCommand (TABLE_NAME e)) = Inr out
              \<and> (Items out = None \<or> Items out = Some [])
            \<longrightarrow> statusCode (fst (main e ev w)) = 200
              \<and> resBody (fst (main e ev w)) = Some ''{"todos":[]}'')\<close>
  using assms
  by (auto simp: main_GET_list listTodos_eq createResponse_def JSON_stringify_def quote_def
      escape_def split: sum.splits)

theorem list_outcomes_witness:
  \<open>httpMethod get_list = ''GET''
   \<and> (path_id get_list = None \<or> path_id get_list = Some [])
   \<and> store_calls (snd (main (example_env\<lparr>dynamoDb := store_items\<rparr>) get_list start))
       = [ScanCommand ''Todos'']
   \<and> statusCode (fst (main (example_env\<lparr>dynamoDb := store_items\<rparr>) get_list start)) = 200
   \<and> resBody (fst (main (example_env\<lparr>dynamoDb := store_items\<rparr>) get_list start))
       = Some ''{"todos":[{"todoId":"1","title":"Todo 1","completed":false},{"todoId":"2","title":"Todo 2","completed":true}]}''
   \<and> dynamoDb example_env (ScanCommand (TABLE_NAME example_env))
       = Inr \<lparr>Item = JUndefined, Items = None, Attributes = JUndefined\<rparr>
   \<and> resBody (fst (main example_env get_list start)) = Some ''{"todos":[]}''\<close>
proof -
  have h: "httpMethod get_list = ''GET''" "path_id get_list = None \<or> path_id get_list = Some []"
    by (simp_all add: get_list_def path_id_def)
  note a = list_outcomes [OF h, of "example_env\<lparr>dynamoDb := store_items\<rparr>" start]
  note b = list_outcomes [OF h, of example_env start]
  have c1: "store_calls (snd (main (example_env\<lparr>dynamoDb := store_items\<rparr>) get_list start))
       = [ScanCommand ''Todos'']"
    using a [THEN conjunct1] by (simp add: example_defs)
  have c2: \<open>fst (main (example_env\<lparr>dynamoDb := store_items\<rparr>) get_list start) =
      \<lparr>statusCode = 200,
       headers = [(''Content-Type'', ''application/json''),
                  (''Access-Control-Allow-Origin'', ''*''),
                  (''Access-Control-Allow-Methods'', ''GET,POST,PUT,DELETE,OPTIONS'')],
       resBody = Some ''{"todos":[{"todoId":"1","title":"Todo 1","completed":false},{"todoId":"2","title":"Todo 2","completed":true}]}''\<rparr>\<close>
    using a [THEN conjunct2, THEN conjunct1]
    by (simp add: example_defs store_items_def quote_def escape_def)
  have s: "dynamoDb example_env (ScanCommand (TABLE_NAME example_env))
       = Inr \<lparr>Item = JUndefined, Items = None, Attributes = JUndefined\<rparr>"
    by (simp add: example_defs)
  have c3: \<open>resBody (fst (main example_env get_list start)) = Some ''{"todos":[]}''\<close>
    using b [THEN conjunct2, THEN conjunct2] s by simp
  show ?thesis using h c1 s c3 by (simp add: c2)
qed

text \<open>
  A list request can produce an error response: with a store that rejects the scan, which
  is the case that the repository's test of internal server errors exercises, the answer
  is 500.
\<close>

theorem list_counterexample:
  \<open>httpMethod get_list = ''GET''
   \<and> path_id get_list = None
   \<and> store_calls (snd (main (example_env\<lparr>dynamoDb := store_rejects\<rparr>) get_list start))
       = [ScanCommand ''Todos'']
   \<and> statusCode (fst (main (example_env\<lparr>dynamoDb := store_rejects\<rparr>) get_list start)) = 500
   \<and> resBody (fst (main (example_env\<lparr>dynamoDb := store_rejects\<rparr>) get_list start))
       = Some ''{"error":"Internal server error"}''\<close>
  by (simp add: get_list_def example_defs handler_defs)

subsection \<open>Update\<close>

lemma update_fields_eq:
  "update_fields t d c =
     ((if t \<noteq> JUndefined then [''#title = :title''] else [])
        @ (if d \<noteq> JUndefined then [''description = :description''] else [])
        @ (if c \<noteq> JUndefined then [''completed = :completed''] else []),
      (if t \<noteq> JUndefined then [(''#title'', ''title'')] else []),
      (if t \<noteq> JUndefined then [('':title'', t)] else [])
        @ (if d \<noteq> JUndefined then [('':description'', d)] else [])
        @ (if c \<noteq> JUndefined then [('':completed'', c)] else []))"
  by (simp add: update_fields_def)

lemma update_fields_empty:
  "fst (update_fields t d c) = [] \<longleftrightarrow> t = JUndefined \<and> d = JUndefined \<and> c = JUndefined"
  by (simp add: update_fields_eq)

lemma set_assignments_update_command:
  "set_assignments (update_command e i t d c u) =
     Some ((if t \<noteq> JUndefined then [(''title'', t)] else [])
        @ (if d \<noteq> JUndefined then [(''description'', d)] else [])
        @ (if c \<noteq> JUndefined then [(''completed'', c)] else [])
        @ [(''updatedAt'', JStr u)])"
  by (simp add: update_command_def update_fields_eq set_assignments_def read_clause_def
      resolve_name_def)

lemma UpdateExpression_update_command:
  "UpdateExpression (update_command e i t d c u) =
     ''SET '' @ join '', ''
       ((if t \<noteq> JUndefined then [''#title = :title''] else [])
        @ (if d \<noteq> JUndefined then [''description = :description''] else [])
        @ (if c \<noteq> JUndefined then [''completed = :completed''] else [])
        @ [''updatedAt = :updatedAt''])"
  by (simp add: update_command_def update_fields_eq)

lemma Key_update_command: "Key (update_command e i t d c u) = i"
  by (simp add: update_command_def split_beta)

lemma updatedAt_update_command:
  "map_of (ExpressionAttributeValues (update_command e i t d c u)) '':updatedAt'' = Some (JStr u)"
  by (simp add: update_command_def update_fields_eq)

lemma main_PUT:
  assumes "httpMethod ev = ''PUT''"
  shows "fst (main e ev w) =
           (case fst (updateTodo e (path_id ev) ev (received e ev w)) of
              Inr r \<Rightarrow> r
            | Inl err \<Rightarrow> createResponse 500 (JObj [(''error'', JStr ''Internal server error'')]))"
    and "store_calls (snd (main e ev w)) =
           store_calls (snd (updateTodo e (path_id ev) ev (received e ev w)))"
  using assms by (simp_all add: main_eq dispatch_def split: sum.splits)

lemma updateTodo_none:
  assumes "JSON_parse e (body_text ev) = Inr b"
    and "get_prop b ''title'' = Inr JUndefined"
    and "get_prop b ''description'' = Inr JUndefined"
    and "get_prop b ''completed'' = Inr JUndefined"
  shows "updateTodo e i ev w =
           (Inr (createResponse 400 (JObj [(''error'', JStr ''No valid fields to update'')])), w)"
  using assms by (simp add: updateTodo_def update_fields_empty)

lemma updateTodo_some:
  assumes "JSON_parse e (body_text ev) = Inr b"
    and "get_prop b ''title'' = Inr t"
    and "get_prop b ''description'' = Inr d"
    and "get_prop b ''completed'' = Inr c"
    and "t \<noteq> JUndefined \<or> d \<noteq> JUndefined \<or> c \<noteq> JUndefined"
  shows "fst (updateTodo e i ev w) =
           (case dynamoDb e (UpdateCommand (update_command e i t d c (now e (ticks w)))) of
              Inr out \<Rightarrow> Inr (createResponse 200 (Attributes out))
            | Inl err \<Rightarrow>
                if name err = ''ValidationException''
                then Inr (createResponse 404 (JObj [(''error'', JStr ''Todo not found'')]))
                else Inl err)"
    and "store_calls (snd (updateTodo e i ev w)) =
           store_calls w @ [UpdateCommand (update_command e i t d c (now e (ticks w)))]"
proof -
  have n: "fst (update_fields t d c) \<noteq> []"
    using assms(5) by (simp add: update_fields_empty)
  show "fst (updateTodo e i ev w) =
           (case dynamoDb e (UpdateCommand (update_command e i t d c (now e (ticks w)))) of
              Inr out \<Rightarrow> Inr (createResponse 200 (Attributes out))
            | Inl err \<Rightarrow>
                if name err = ''ValidationException''
                then Inr (createResponse 404 (JObj [(''error'', JStr ''Todo not found'')]))
                else Inl err)"
    using assms(1-4) n
    by (simp add: updateTodo_def new_Date_def send_def Let_def split: sum.splits)
  show "store_calls (snd (updateTodo e i ev w)) =
           store_calls w @ [UpdateCommand (update_command e i t d c (now e (ticks w)))]"
    using assms(1-4) n
    by (simp add: updateTodo_def new_Date_def send_def Let_def split: sum.splits)
qed

lemma put_fields_reads:
  "httpMethod put_fields = ''PUT''"
  "JSON_parse example_env (body_text put_fields)
     = Inr (JObj [(''title'', JStr []), (''completed'', JBool False)])"
  "get_prop (JObj [(''title'', JStr []), (''completed'', JBool False)]) ''title'' = Inr (JStr [])"
  "get_prop (JObj [(''title'', JStr []), (''completed'', JBool False)]) ''description''
     = Inr JUndefined"
  "get_prop (JObj [(''title'', JStr []), (''completed'', JBool False)]) ''completed''
     = Inr (JBool False)"
  by (simp_all add: put_fields_def example_env_def example_parse_def body_text_def)

lemma put_empty_reads:
  "httpMethod put_empty = ''PUT''"
  "JSON_parse example_env (body_text put_empty) = Inr (JObj [])"
  "get_prop (JObj []) ''title'' = Inr JUndefined"
  "get_prop (JObj []) ''description'' = Inr JUndefined"
  "get_prop (JObj []) ''completed'' = Inr JUndefined"
  by (simp_all add: put_empty_def example_env_def example_parse_def body_text_def)

lemma example_update_command:
  "update_command example_env (Some ''123'') (JStr []) JUndefined (JBool False)
       ''2024-01-01T00:00:00.999Z'' =
     \<lparr>TableName = ''Todos'', Key = Some ''123'',
      UpdateExpression = ''SET #title = :title, completed = :completed, updatedAt = :updatedAt'',
      ExpressionAttributeValues =
        [('':title'', JStr []), ('':completed'', JBool False),
         ('':updatedAt'', JStr ''2024-01-01T00:00:00.999Z'')],
      ExpressionAttributeNames = Some [(''#title'', ''title'')],
      ReturnValues = ''ALL_NEW''\<rparr>"
  by (simp add: update_command_def update_fields_def example_env_def)


lemma updateTodo_null:
  "JSON_parse e (body_text ev) = Inr JNull \<Longrightarrow>
   updateTodo e i ev w = (Inl (TypeError ''null'' ''title''), w)"
  by (simp add: updateTodo_def)

lemma values_update_command:
  "ExpressionAttributeValues (update_command e i t d c u) =
     (if t \<noteq> JUndefined then [('':title'', t)] else [])
     @ (if d \<noteq> JUndefined then [('':description'', d)] else [])
     @ (if c \<noteq> JUndefined then [('':completed'', c)] else [])
     @ [('':updatedAt'', JStr u)]"
  by (simp add: update_command_def update_fields_eq)

lemma names_update_command:
  "ExpressionAttributeNames (update_command e i t d c u) =
     (if t \<noteq> JUndefined then Some [(''#title'', ''title'')] else None)"
  by (simp add: update_command_def update_fields_eq)

text \<open>
  C5. On an update request whose parsed body is not \<^verbatim>\<open>null\<close>, each of \<^verbatim>\<open>title\<close>,
  \<^verbatim>\<open>description\<close> and \<^verbatim>\<open>completed\<close> is put into the update set exactly when the body defines
  it (an empty string, \<^verbatim>\<open>false\<close> or \<^verbatim>\<open>null\<close> is a value to set): the expression, the
  attribute values and the attribute names of the command sent hold the defined fields and
  \<^verbatim>\<open>updatedAt\<close> and nothing else, and the store reads the command as exactly these
  assignments. When none of the three is defined the answer is 400 with body
  \<^verbatim>\<open>{"error":"No valid fields to update"}\<close> and no command is sent to the store. When the
  body parses to \<^verbatim>\<open>null\<close>, reading its fields throws: the answer is the 500 of the top-level
  handler, again without a command to the store.
\<close>

theorem update_fields_by_definedness:
  assumes "httpMethod ev = ''PUT''"
    and "JSON_parse e (body_text ev) = Inr b"
  shows \<open>(get_prop b ''title'' = Inr t \<and> get_prop b ''description'' = Inr d
          \<and> get_prop b ''completed'' = Inr c
          \<and> t = JUndefined \<and> d = JUndefined \<and> c = JUndefined \<longrightarrow>
            fst (main e ev w) =
              \<lparr>statusCode = 400,
               headers = [(''Content-Type'', ''application/json''),
                          (''Access-Control-Allow-Origin'', ''*''),
                          (''Access-Control-Allow-Methods'', ''GET,POST,PUT,DELETE,OPTIONS'')],
               resBody = Some ''{"error":"No valid fields to update"}''\<rparr>
            \<and> store_calls (snd (main e ev w)) = store_calls w)
     \<and> (get_prop b ''title'' = Inr t \<and> get_prop b ''description'' = Inr d
          \<and> get_prop b ''completed'' = Inr c
          \<and> (t \<noteq> JUndefined \<or> d \<noteq> JUndefined \<or> c \<noteq> JUndefined) \<longrightarrow>
            store_calls (snd (main e ev w)) =
              store_calls w
              @ [UpdateCommand (update_command e (path_id ev) t d c (now e (Suc (ticks w))))])
     \<and> (b = JNull \<longrightarrow>
            fst (main e ev w) =
              \<lparr>statusCode = 500,
               headers = [(''Content-Type'', ''application/json''),
                          (''Access-Control-Allow-Origin'', ''*''),
                          (''Access-Control-Allow-Methods'', ''GET,POST,PUT,DELETE,OPTIONS'')],
               resBody = Some ''{"error":"Internal server error"}''\<rparr>
            \<and> store_calls (snd (main e ev w)) = store_calls w)
     \<and> ((\<exists>x. get_prop b ''title'' = Inr x) \<longleftrightarrow> b \<noteq> JNull \<and> b \<noteq> JUndefined)
     \<and> UpdateExpression (update_command e (path_id ev) t d c (now e (Suc (ticks w)))) =
         ''SET '' @ join '', ''
           ((if t \<noteq> JUndefined then [''#title = :title''] else [])
            @ (if d \<noteq> JUndefined then [''description = :description''] else [])
            @ (if c \<noteq> JUndefined then [''completed = :completed''] else [])
            @ [''updatedAt = :updatedAt''])
     \<and> ExpressionAttributeValues
           (update_command e (path_id ev) t d c (now e (Suc (ticks w)))) =
         (if t \<noteq> JUndefined then [('':title'', t)] else [])
         @ (if d \<noteq> JUndefined then [('':description'', d)] else [])
         @ (if c \<noteq> JUndefined then [('':completed'', c)] else [])
         @ [('':updatedAt'', JStr (now e (Suc (ticks w))))]
     \<and> ExpressionAttributeNames
           (update_command e (path_id ev) t d c (now e (Suc (ticks w)))) =
         (if t \<noteq> JUndefined then Some [(''#title'', ''title'')] else None)
     \<and> set_assignments (update_command e (path_id ev) t d c (now e (Suc (ticks w)))) =
         Some ((if t \<noteq> JUndefined then [(''title'', t)] else [])
               @ (if d \<noteq> JUndefined then [(''description'', d)] else [])
               @ (if c \<noteq> JUndefined then [(''completed'', c)] else [])
               @ [(''updatedAt'', JStr (now e (Suc (ticks w))))])\<close>
proof -
  have none: \<open>fst (main e ev w) =
              \<lparr>statusCode = 400,
               headers = [(''Content-Type'', ''application/json''),
                          (''Access-Control-Allow-Origin'', ''*''),
                          (''Access-Control-Allow-Methods'', ''GET,POST,PUT,DELETE,OPTIONS'')],
               resBody = Some ''{"error":"No valid fields to update"}''\<rparr>
            \<and> store_calls (snd (main e ev w)) = store_calls w\<close>
    if "get_prop b ''title'' = Inr t \<and> get_prop b ''description'' = Inr d
          \<and> get_prop b ''completed'' = Inr c
          \<and> t = JUndefined \<and> d = JUndefined \<and> c = JUndefined"
    using that assms
    by (simp add: main_PUT updateTodo_none createResponse_def JSON_stringify_def quote_def
        escape_def)
  have some: "store_calls (snd (main e ev w)) =
              store_calls w
              @ [UpdateCommand (update_command e (path_id ev) t d c (now e (Suc (ticks w))))]"
    if r: "get_prop b ''title'' = Inr t \<and> get_prop b ''description'' = Inr d
          \<and> get_prop b ''completed'' = Inr c
          \<and> (t \<noteq> JUndefined \<or> d \<noteq> JUndefined \<or> c \<noteq> JUndefined)"
  proof -
    from r have r1: "get_prop b ''title'' = Inr t" and r2: "get_prop b ''description'' = Inr d"
      and r3: "get_prop b ''completed'' = Inr c"
      and r4: "t \<noteq> JUndefined \<or> d \<noteq> JUndefined \<or> c \<noteq> JUndefined"
      by blast+
    show ?thesis
      using updateTodo_some(2) [OF assms(2) r1 r2 r3 r4] assms(1) by (simp add: main_PUT)
  qed
  have null: \<open>fst (main e ev w) =
              \<lparr>statusCode = 500,
               headers = [(''Content-Type'', ''application/json''),
                          (''Access-Control-Allow-Origin'', ''*''),
                          (''Access-Control-Allow-Methods'', ''GET,POST,PUT,DELETE,OPTIONS'')],
               resBody = Some ''{"error":"Internal server error"}''\<rparr>
            \<and> store_calls (snd (main e ev w)) = store_calls w\<close>
    if n: "b = JNull"
  proof -
    have "updateTodo e (path_id ev) ev (received e ev w)
            = (Inl (TypeError ''null'' ''title''), received e ev w)"
      using assms(2) n by (simp add: updateTodo_null)
    then show ?thesis
      using assms(1)
      by (simp add: main_PUT createResponse_def JSON_stringify_def quote_def escape_def)
  qed
  from none some null get_prop_readable [of b "''title''"] show ?thesis
    by (simp only: UpdateExpression_update_command set_assignments_update_command
        values_update_command names_update_command) blast
qed

theorem update_fields_by_definedness_witness:
  \<open>httpMethod put_fields = ''PUT''
   \<and> JSON_parse example_env (body_text put_fields)
       = Inr (JObj [(''title'', JStr []), (''completed'', JBool False)])
   \<and> get_prop (JObj [(''title'', JStr []), (''completed'', JBool False)]) ''title'' = Inr (JStr [])
   \<and> get_prop (JObj [(''title'', JStr []), (''completed'', JBool False)]) ''description''
       = Inr JUndefined
   \<and> get_prop (JObj [(''title'', JStr []), (''completed'', JBool False)]) ''completed''
       = Inr (JBool False)
   \<and> store_calls (snd (main example_env put_fields start)) =
       [UpdateCommand
          \<lparr>TableName = ''Todos'', Key = Some ''123'',
           UpdateExpression =
             ''SET #title = :title, completed = :completed, updatedAt = :updatedAt'',
           ExpressionAttributeValues =
             [('':title'', JStr []), ('':completed'', JBool False),
              ('':updatedAt'', JStr ''2024-01-01T00:00:00.999Z'')],
           ExpressionAttributeNames = Some [(''#title'', ''title'')],
           ReturnValues = ''ALL_NEW''\<rparr>]
   \<and> set_assignments
        \<lparr>TableName = ''Todos'', Key = Some ''123'',
         UpdateExpression =
           ''SET #title = :title, completed = :completed, updatedAt = :updatedAt'',
         ExpressionAttributeValues =
           [('':title'', JStr []), ('':completed'', JBool False),
            ('':updatedAt'', JStr ''2024-01-01T00:00:00.999Z'')],
         ExpressionAttributeNames = Some [(''#title'', ''title'')],
         ReturnValues = ''ALL_NEW''\<rparr>
       = Some [(''title'', JStr []), (''completed'', JBool False),
               (''updatedAt'', JStr ''2024-01-01T00:00:00.999Z'')]
   \<and> JSON_parse example_env (body_text put_empty) = Inr (JObj [])
   \<and> statusCode (fst (main example_env put_empty start)) = 400
   \<and> resBody (fst (main example_env put_empty start))
       = Some ''{"error":"No valid fields to update"}''
   \<and> store_calls (snd (main example_env put_empty start)) = []
   \<and> httpMethod put_null = ''PUT''
   \<and> JSON_parse example_env (body_text put_null) = Inr JNull
   \<and> statusCode (fst (main example_env put_null start)) = 500
   \<and> resBody (fst (main example_env put_null start))
       = Some ''{"error":"Internal server error"}''
   \<and> store_calls (snd (main example_env put_null start)) = []\<close>
proof -
  have i: "path_id put_fields = Some ''123''"
    by (simp add: put_fields_def path_id_def)
  have n: "now example_env (Suc (ticks start)) = ''2024-01-01T00:00:00.999Z''"
    by (simp add: example_defs)
  have g: "httpMethod put_null = ''PUT''"
    "JSON_parse example_env (body_text put_null) = Inr JNull"
    by (simp_all add: put_null_def example_env_def example_parse_def body_text_def)
  note a = update_fields_by_definedness [OF put_fields_reads(1,2),
      where t = "JStr []" and d = JUndefined and c = "JBool False" and w = start]
  note b = update_fields_by_definedness [OF put_empty_reads(1,2),
      where t = JUndefined and d = JUndefined and c = JUndefined and w = start]
  note z = update_fields_by_definedness [OF g,
      where t = JUndefined and d = JUndefined and c = JUndefined and w = start]
  have c1: "store_calls (snd (main example_env put_fields start)) =
       [UpdateCommand
          \<lparr>TableName = ''Todos'', Key = Some ''123'',
           UpdateExpression =
             ''SET #title = :title, completed = :completed, updatedAt = :updatedAt'',
           ExpressionAttributeValues =
             [('':title'', JStr []), ('':completed'', JBool False),
              ('':updatedAt'', JStr ''2024-01-01T00:00:00.999Z'')],
           ExpressionAttributeNames = Some [(''#title'', ''title'')],
           ReturnValues = ''ALL_NEW''\<rparr>]"
    using a [THEN conjunct2, THEN conjunct1] put_fields_reads(3-5)
    by (simp add: i n example_update_command) (simp add: start_def)
  have c2: "set_assignments
        \<lparr>TableName = ''Todos'', Key = Some ''123'',
         UpdateExpression =
           ''SET #title = :title, completed = :completed, updatedAt = :updatedAt'',
         ExpressionAttributeValues =
           [('':title'', JStr []), ('':completed'', JBool False),
            ('':updatedAt'', JStr ''2024-01-01T00:00:00.999Z'')],
         ExpressionAttributeNames = Some [(''#title'', ''title'')],
         ReturnValues = ''ALL_NEW''\<rparr>
       = Some [(''title'', JStr []), (''completed'', JBool False),
               (''updatedAt'', JStr ''2024-01-01T00:00:00.999Z'')]"
    using a [THEN conjunct2, THEN conjunct2, THEN conjunct2, THEN conjunct2, THEN conjunct2,
        THEN conjunct2, THEN conjunct2]
    by (simp add: i n example_update_command)
  have c3: \<open>fst (main example_env put_empty start) =
              \<lparr>statusCode = 400,
               headers = [(''Content-Type'', ''application/json''),
                          (''Access-Control-Allow-Origin'', ''*''),
                          (''Access-Control-Allow-Methods'', ''GET,POST,PUT,DELETE,OPTIONS'')],
               resBody = Some ''{"error":"No valid fields to update"}''\<rparr>\<close>
    and c4: "store_calls (snd (main example_env put_empty start)) = []"
    using b [THEN conjunct1] put_empty_reads(3-5) by (simp_all add: start_def)
  have d1: \<open>fst (main example_env put_null start) =
              \<lparr>statusCode = 500,
               headers = [(''Content-Type'', ''application/json''),
                          (''Access-Control-Allow-Origin'', ''*''),
                          (''Access-Control-Allow-Methods'', ''GET,POST,PUT,DELETE,OPTIONS'')],
               resBody = Some ''{"error":"Internal server error"}''\<rparr>\<close>
    and d2: "store_calls (snd (main example_env put_null start)) = []"
    using z [THEN conjunct2, THEN conjunct2, THEN conjunct1] by (simp_all add: start_def)
  have c5: "statusCode (fst (main example_env put_empty start)) = 400"
    and c6: \<open>resBody (fst (main example_env put_empty start))
               = Some ''{"error":"No valid fields to update"}''\<close>
    by (simp_all add: c3)
  have d3: "statusCode (fst (main example_env put_null start)) = 500"
    and d4: \<open>resBody (fst (main example_env put_null start))
               = Some ''{"error":"Internal server error"}''\<close>
    by (simp_all add: d1)
  show ?thesis
    using put_fields_reads c1 c2 put_empty_reads(2) c5 c6 c4 g d3 d4 d2 by (intro conjI)
qed

text \<open>
  An update whose body defines none of the three fields is not always answered with 400:
  the body text \<^verbatim>\<open>null\<close> parses to \<^verbatim>\<open>null\<close>, which defines no field, and the answer is 500.
\<close>

theorem update_null_body_counterexample:
  \<open>httpMethod put_null = ''PUT''
   \<and> body put_null = Some ''null''
   \<and> JSON_parse example_env (body_text put_null) = Inr JNull
   \<and> get_prop JNull ''title'' = Inl (TypeError ''null'' ''title'')
   \<and> get_prop JNull ''description'' = Inl (TypeError ''null'' ''description'')
   \<and> get_prop JNull ''completed'' = Inl (TypeError ''null'' ''completed'')
   \<and> statusCode (fst (main example_env put_null start)) = 500
   \<and> resBody (fst (main example_env put_null start))
       = Some ''{"error":"Internal server error"}''\<close>
  by (simp add: put_null_def example_defs handler_defs)

text \<open>
  C2. An update request whose body defines at least one of \<^verbatim>\<open>title\<close>, \<^verbatim>\<open>description\<close>,
  \<^verbatim>\<open>completed\<close> sends one \<^verbatim>\<open>UpdateCommand\<close>, which also sets \<^verbatim>\<open>updatedAt\<close> to the clock
  reading taken for this update. When the store rejects the command with
  \<^verbatim>\<open>ValidationException\<close> the answer is 404 with body \<^verbatim>\<open>{"error":"Todo not found"}\<close>; when
  the store accepts it the answer is 200 with the attributes the store returned as body;
  any other store error ends in the 500 of the top-level handler. Applied to a stored
  item, the command overwrites the defined fields and \<^verbatim>\<open>updatedAt\<close> and leaves every other
  attribute at its prior value.
\<close>

theorem update_outcomes:
  assumes "httpMethod ev = ''PUT''"
    and "JSON_parse e (body_text ev) = Inr b"
    and "get_prop b ''title'' = Inr t"
    and "get_prop b ''description'' = Inr d"
    and "get_prop b ''completed'' = Inr c"
    and "t \<noteq> JUndefined \<or> d \<noteq> JUndefined \<or> c \<noteq> JUndefined"
    and "u = update_command e (path_id ev) t d c (now e (Suc (ticks w)))"
  shows \<open>store_calls (snd (main e ev w)) = store_calls w @ [UpdateCommand u]
     \<and> map_of (ExpressionAttributeValues u) '':updatedAt'' = Some (JStr (now e (Suc (ticks w))))
     \<and> fst (main e ev w) =
         (case dynamoDb e (UpdateCommand u) of
            Inr out \<Rightarrow>
              \<lparr>statusCode = 200,
               headers = [(''Content-Type'', ''application/json''),
                          (''Access-Control-Allow-Origin'', ''*''),
                          (''Access-Control-Allow-Methods'', ''GET,POST,PUT,DELETE,OPTIONS'')],
               resBody = JSON_stringify (Attributes out)\<rparr>
          | Inl err \<Rightarrow>
              if name err = ''ValidationException'' then
                \<lparr>statusCode = 404,
                 headers = [(''Content-Type'', ''application/json''),
                            (''Access-Control-Allow-Origin'', ''*''),
                            (''Access-Control-Allow-Methods'', ''GET,POST,PUT,DELETE,OPTIONS'')],
                 resBody = Some ''{"error":"Todo not found"}''\<rparr>
              else
                \<lparr>statusCode = 500,
                 headers = [(''Content-Type'', ''application/json''),
                            (''Access-Control-Allow-Origin'', ''*''),
                            (''Access-Control-Allow-Methods'', ''GET,POST,PUT,DELETE,OPTIONS'')],
                 resBody = Some ''{"error":"Internal server error"}''\<rparr>)
     \<and> (\<exists>item'. apply_update u item = Some item'
           \<and> item' ''updatedAt'' = Some (JStr (now e (Suc (ticks w))))
           \<and> item' ''title'' = (if t \<noteq> JUndefined then Some t else item ''title'')
           \<and> item' ''description'' = (if d \<noteq> JUndefined then Some d else item ''description'')
           \<and> item' ''completed'' = (if c \<noteq> JUndefined then Some c else item ''completed'')
           \<and> (\<forall>a. a \<notin> {''title'', ''description'', ''completed'', ''updatedAt''}
                 \<longrightarrow> item' a = item a))\<close>
proof -
  have calls: "store_calls (snd (main e ev w)) = store_calls w @ [UpdateCommand u]"
    using updateTodo_some(2) [OF assms(2-6)] assms(1,7) by (simp add: main_PUT)
  have stamp: "map_of (ExpressionAttributeValues u) '':updatedAt''
                 = Some (JStr (now e (Suc (ticks w))))"
    by (simp add: assms(7) updatedAt_update_command)
  have resp: \<open>fst (main e ev w) =
         (case dynamoDb e (UpdateCommand u) of
            Inr out \<Rightarrow>
              \<lparr>statusCode = 200,
               headers = [(''Content-Type'', ''application/json''),
                          (''Access-Control-Allow-Origin'', ''*''),
                          (''Access-Control-Allow-Methods'', ''GET,POST,PUT,DELETE,OPTIONS'')],
               resBody = JSON_stringify (Attributes out)\<rparr>
          | Inl err \<Rightarrow>
              if name err = ''ValidationException'' then
                \<lparr>statusCode = 404,
                 headers = [(''Content-Type'', ''application/json''),
                            (''Access-Control-Allow-Origin'', ''*''),
                            (''Access-Control-Allow-Methods'', ''GET,POST,PUT,DELETE,OPTIONS'')],
                 resBody = Some ''{"error":"Todo not found"}''\<rparr>
              else
                \<lparr>statusCode = 500,
                 headers = [(''Content-Type'', ''application/json''),
                            (''Access-Control-Allow-Origin'', ''*''),
                            (''Access-Control-Allow-Methods'', ''GET,POST,PUT,DELETE,OPTIONS'')],
                 resBody = Some ''{"error":"Internal server error"}''\<rparr>)\<close>
    using updateTodo_some(1) [OF assms(2-6), of "path_id ev" "received e ev w"] assms(1,7)
    by (simp add: main_PUT createResponse_def split: sum.splits)
       (simp add: JSON_stringify_def quote_def escape_def)
  have store: "\<exists>item'. apply_update u item = Some item'
           \<and> item' ''updatedAt'' = Some (JStr (now e (Suc (ticks w))))
           \<and> item' ''title'' = (if t \<noteq> JUndefined then Some t else item ''title'')
           \<and> item' ''description'' = (if d \<noteq> JUndefined then Some d else item ''description'')
           \<and> item' ''completed'' = (if c \<noteq> JUndefined then Some c else item ''completed'')
           \<and> (\<forall>a. a \<notin> {''title'', ''description'', ''completed'', ''updatedAt''}
                 \<longrightarrow> item' a = item a)"
    by (simp add: apply_update_def assms(7) set_assignments_update_command)
  from calls stamp resp store show ?thesis by blast
qed


theorem update_outcomes_witness:
  \<open>httpMethod put_fields = ''PUT''
   \<and> JSON_parse example_env (body_text put_fields)
       = Inr (JObj [(''title'', JStr []), (''completed'', JBool False)])
   \<and> get_prop (JObj [(''title'', JStr []), (''completed'', JBool False)]) ''title'' = Inr (JStr [])
   \<and> JStr [] \<noteq> JUndefined
   \<and> statusCode (fst (main (example_env\<lparr>dynamoDb := store_items\<rparr>) put_fields start)) = 200
   \<and> resBody (fst (main (example_env\<lparr>dynamoDb := store_items\<rparr>) put_fields start))
       = Some ''{"todoId":"123","title":"","completed":false}''
   \<and> statusCode (fst (main (example_env\<lparr>dynamoDb := store_validation_fails\<rparr>) put_fields start))
       = 404
   \<and> resBody (fst (main (example_env\<lparr>dynamoDb := store_validation_fails\<rparr>) put_fields start))
       = Some ''{"error":"Todo not found"}''
   \<and> (\<exists>item'. apply_update
          (update_command example_env (Some ''123'') (JStr []) JUndefined (JBool False)
             ''2024-01-01T00:00:00.999Z'') stored_item = Some item'
         \<and> item' ''title'' = Some (JStr [])
         \<and> item' ''description'' = Some (JStr ''kept'')
         \<and> item' ''completed'' = Some (JBool False)
         \<and> item' ''updatedAt'' = Some (JStr ''2024-01-01T00:00:00.999Z'')
         \<and> item' ''createdAt'' = Some (JStr ''2023-12-31T00:00:00.000Z''))\<close>
proof -
  let ?ok = "example_env\<lparr>dynamoDb := store_items\<rparr>"
  let ?bad = "example_env\<lparr>dynamoDb := store_validation_fails\<rparr>"
  have i: "path_id put_fields = Some ''123''"
    by (simp add: put_fields_def path_id_def)
  have d: "JStr [] \<noteq> JUndefined \<or> JUndefined \<noteq> JUndefined \<or> JBool False \<noteq> JUndefined"
    by simp
  have r1: "JSON_parse ?ok (body_text put_fields)
     = Inr (JObj [(''title'', JStr []), (''completed'', JBool False)])"
    and r2: "JSON_parse ?bad (body_text put_fields)
     = Inr (JObj [(''title'', JStr []), (''completed'', JBool False)])"
    using put_fields_reads(2) by (simp_all add: example_env_def)
  note a = update_outcomes [OF put_fields_reads(1) r1 put_fields_reads(3-5) d refl,
      of start stored_item]
  note b = update_outcomes [OF put_fields_reads(1) r2 put_fields_reads(3-5) d refl,
      of start stored_item]
  have c1: \<open>fst (main ?ok put_fields start) =
              \<lparr>statusCode = 200,
               headers = [(''Content-Type'', ''application/json''),
                          (''Access-Control-Allow-Origin'', ''*''),
                          (''Access-Control-Allow-Methods'', ''GET,POST,PUT,DELETE,OPTIONS'')],
               resBody = Some ''{"todoId":"123","title":"","completed":false}''\<rparr>\<close>
    using a [THEN conjunct2, THEN conjunct2, THEN conjunct1]
    by (simp add: store_items_def JSON_stringify_def quote_def escape_def)
  have c2: \<open>fst (main ?bad put_fields start) =
              \<lparr>statusCode = 404,
               headers = [(''Content-Type'', ''application/json''),
                          (''Access-Control-Allow-Origin'', ''*''),
                          (''Access-Control-Allow-Methods'', ''GET,POST,PUT,DELETE,OPTIONS'')],
               resBody = Some ''{"error":"Todo not found"}''\<rparr>\<close>
    using b [THEN conjunct2, THEN conjunct2, THEN conjunct1]
    by (simp add: store_validation_fails_def)
  have n: "now ?ok (Suc (ticks start)) = ''2024-01-01T00:00:00.999Z''"
    by (simp add: example_defs)
  have e: "update_command ?ok (Some ''123'') (JStr []) JUndefined (JBool False)
             ''2024-01-01T00:00:00.999Z''
           = update_command example_env (Some ''123'') (JStr []) JUndefined (JBool False)
             ''2024-01-01T00:00:00.999Z''"
    by (simp add: update_command_def example_env_def)
  obtain item' where item':
    "apply_update (update_command example_env (Some ''123'') (JStr []) JUndefined (JBool False)
       ''2024-01-01T00:00:00.999Z'') stored_item = Some item'"
    "item' ''updatedAt'' = Some (JStr ''2024-01-01T00:00:00.999Z'')"
    "item' ''title'' = Some (JStr [])"
    "item' ''description'' = stored_item ''description''"
    "item' ''completed'' = Some (JBool False)"
    "\<forall>a. a \<notin> {''title'', ''description'', ''completed'', ''updatedAt''}
         \<longrightarrow> item' a = stored_item a"
    using a [THEN conjunct2, THEN conjunct2, THEN conjunct2]
    unfolding i n e by auto
  have "item' ''createdAt'' = stored_item ''createdAt''"
    using item'(6) by simp
  then have c: "item' ''createdAt'' = Some (JStr ''2023-12-31T00:00:00.000Z'')"
    by (simp add: stored_item_def)
  have k: "item' ''description'' = Some (JStr ''kept'')"
    using item'(4) by (simp add: stored_item_def)
  have c3: "\<exists>item'. apply_update
          (update_command example_env (Some ''123'') (JStr []) JUndefined (JBool False)
             ''2024-01-01T00:00:00.999Z'') stored_item = Some item'
         \<and> item' ''title'' = Some (JStr [])
         \<and> item' ''description'' = Some (JStr ''kept'')
         \<and> item' ''completed'' = Some (JBool False)
         \<and> item' ''updatedAt'' = Some (JStr ''2024-01-01T00:00:00.999Z'')
         \<and> item' ''createdAt'' = Some (JStr ''2023-12-31T00:00:00.000Z'')"
    using item'(1,2,3,5) c k by blast
  have c1': "statusCode (fst (main ?ok put_fields start)) = 200"
    and c1'': \<open>resBody (fst (main ?ok put_fields start))
                = Some ''{"todoId":"123","title":"","completed":false}''\<close>
    by (simp_all add: c1)
  have c2': "statusCode (fst (main ?bad put_fields start)) = 404"
    and c2'': \<open>resBody (fst (main ?bad put_fields start)) = Some ''{"error":"Todo not found"}''\<close>
    by (simp_all add: c2)
  have u: "JStr [] \<noteq> JUndefined" by simp
  show ?thesis
    using put_fields_reads(1-3) u c1' c1'' c2' c2'' c3 by (intro conjI)
qed



text \<open>
  An update whose store call is not rejected as invalid need not end in 200: when the store
  rejects the command with an error whose name is not \<^verbatim>\<open>ValidationException\<close>, the error
  is thrown again and the answer is 500.
\<close>

theorem update_counterexample:
  \<open>httpMethod put_fields = ''PUT''
   \<and> JSON_parse (example_env\<lparr>dynamoDb := store_rejects\<rparr>) (body_text put_fields)
       = Inr (JObj [(''title'', JStr []), (''completed'', JBool False)])
   \<and> get_prop (JObj [(''title'', JStr []), (''completed'', JBool False)]) ''title'' = Inr (JStr [])
   \<and> JStr [] \<noteq> JUndefined
   \<and> store_calls (snd (main (example_env\<lparr>dynamoDb := store_rejects\<rparr>) put_fields start)) =
       [UpdateCommand
          \<lparr>TableName = ''Todos'', Key = Some ''123'',
           UpdateExpression =
             ''SET #title = :title, completed = :completed, updatedAt = :updatedAt'',
           ExpressionAttributeValues =
             [('':title'', JStr []), ('':completed'', JBool False),
              ('':updatedAt'', JStr ''2024-01-01T00:00:00.999Z'')],
           ExpressionAttributeNames = Some [(''#title'', ''title'')],
           ReturnValues = ''ALL_NEW''\<rparr>]
   \<and> store_rejects (UpdateCommand
          \<lparr>TableName = ''Todos'', Key = Some ''123'',
           UpdateExpression =
             ''SET #title = :title, completed = :completed, updatedAt = :updatedAt'',
           ExpressionAttributeValues =
             [('':title'', JStr []), ('':completed'', JBool False),
              ('':updatedAt'', JStr ''2024-01-01T00:00:00.999Z'')],
           ExpressionAttributeNames = Some [(''#title'', ''title'')],
           ReturnValues = ''ALL_NEW''\<rparr>) = Inl (Error ''Error'' ''Database error'' [])
   \<and> name (Error ''Error'' ''Database error'' []) \<noteq> ''ValidationException''
   \<and> statusCode (fst (main (example_env\<lparr>dynamoDb := store_rejects\<rparr>) put_fields start)) = 500
   \<and> resBody (fst (main (example_env\<lparr>dynamoDb := store_rejects\<rparr>) put_fields start))
       = Some ''{"error":"Internal server error"}''\<close>
  by (simp add: put_fields_def example_defs handler_defs)


subsection \<open>Requests without an identifier\<close>

lemma status_createResponse: "statusCode (createResponse code b) = code"
  by (simp add: createResponse_def)

text \<open>
  C10. A \<^verbatim>\<open>PUT\<close> or \<^verbatim>\<open>DELETE\<close> request whose path parameters hold no identifier is not
  turned away by \<^verbatim>\<open>main\<close>: it is routed to the update or delete handler with an undefined
  key. Every such \<^verbatim>\<open>DELETE\<close>, and every such \<^verbatim>\<open>PUT\<close> whose body defines at least one of the
  three fields, sends a command to the store whose key is undefined, and its status is one
  that only arises after the store has answered (no 400 and no 405).
\<close>

theorem missing_identifier_reaches_store:
  assumes "path_id ev = None"
  shows "(httpMethod ev = ''DELETE'' \<longrightarrow>
            dispatch e (httpMethod ev) (path_id ev) ev w' = deleteTodo e None w'
            \<and> store_calls (snd (main e ev w)) =
                store_calls w @ [DeleteCommand (TABLE_NAME e) None ''attribute_exists(todoId)'']
            \<and> statusCode (fst (main e ev w)) \<in> {204, 404, 500})
     \<and> (httpMethod ev = ''PUT'' \<longrightarrow>
            dispatch e (httpMethod ev) (path_id ev) ev w' = updateTodo e None ev w')
     \<and> (httpMethod ev = ''PUT''
          \<and> JSON_parse e (body_text ev) = Inr b
          \<and> get_prop b ''title'' = Inr t
          \<and> get_prop b ''description'' = Inr d
          \<and> get_prop b ''completed'' = Inr c
          \<and> (t \<noteq> JUndefined \<or> d \<noteq> JUndefined \<or> c \<noteq> JUndefined) \<longrightarrow>
            store_calls (snd (main e ev w)) =
              store_calls w @ [UpdateCommand (update_command e None t d c (now e (Suc (ticks w))))]
            \<and> Key (update_command e None t d c (now e (Suc (ticks w)))) = None
            \<and> statusCode (fst (main e ev w)) \<in> {200, 404, 500})"
proof -
  have del: "dispatch e (httpMethod ev) (path_id ev) ev w' = deleteTodo e None w'
            \<and> store_calls (snd (main e ev w)) =
                store_calls w @ [DeleteCommand (TABLE_NAME e) None ''attribute_exists(todoId)'']
            \<and> statusCode (fst (main e ev w)) \<in> {204, 404, 500}"
    if m: "httpMethod ev = ''DELETE''"
  proof -
    have 1: "dispatch e (httpMethod ev) (path_id ev) ev w' = deleteTodo e None w'"
      using m assms by (simp add: dispatch_def)
    have 2: "store_calls (snd (main e ev w)) =
                store_calls w @ [DeleteCommand (TABLE_NAME e) None ''attribute_exists(todoId)'']"
      using m assms by (simp add: main_DELETE deleteTodo_eq)
    have 3: "statusCode (fst (main e ev w)) \<in> {204, 404, 500}"
      using m by (simp add: main_DELETE deleteTodo_eq status_createResponse split: sum.splits)
    from 1 2 3 show ?thesis by blast
  qed
  have put: "dispatch e (httpMethod ev) (path_id ev) ev w' = updateTodo e None ev w'"
    if m: "httpMethod ev = ''PUT''"
    using m assms by (simp add: dispatch_def)
  have upd: "store_calls (snd (main e ev w)) =
              store_calls w @ [UpdateCommand (update_command e None t d c (now e (Suc (ticks w))))]
            \<and> Key (update_command e None t d c (now e (Suc (ticks w)))) = None
            \<and> statusCode (fst (main e ev w)) \<in> {200, 404, 500}"
    if m: "httpMethod ev = ''PUT''" and p: "JSON_parse e (body_text ev) = Inr b"
      and r: "get_prop b ''title'' = Inr t" "get_prop b ''description'' = Inr d"
        "get_prop b ''completed'' = Inr c"
      and f: "t \<noteq> JUndefined \<or> d \<noteq> JUndefined \<or> c \<noteq> JUndefined"
  proof -
    note u = updateTodo_some [OF p r f, of None "received e ev w"]
    have 1: "store_calls (snd (main e ev w)) =
              store_calls w @ [UpdateCommand (update_command e None t d c (now e (Suc (ticks w))))]"
      using u(2) m assms by (simp add: main_PUT)
    have 3: "statusCode (fst (main e ev w)) \<in> {200, 404, 500}"
      using u(1) m assms by (simp add: main_PUT status_createResponse split: sum.splits)
    from 1 3 show ?thesis by (simp add: Key_update_command)
  qed
  from del put upd show ?thesis by blast
qed

theorem missing_identifier_reaches_store_witness:
  \<open>path_id delete_no_id = None
   \<and> httpMethod delete_no_id = ''DELETE''
   \<and> store_calls (snd (main example_env delete_no_id start))
       = [DeleteCommand ''Todos'' None ''attribute_exists(todoId)'']
   \<and> path_id put_no_id = None
   \<and> httpMethod put_no_id = ''PUT''
   \<and> JSON_parse example_env (body_text put_no_id)
       = Inr (JObj [(''title'', JStr []), (''completed'', JBool False)])
   \<and> store_calls (snd (main example_env put_no_id start))
       = [UpdateCommand
            \<lparr>TableName = ''Todos'', Key = None,
             UpdateExpression =
               ''SET #title = :title, completed = :completed, updatedAt = :updatedAt'',
             ExpressionAttributeValues =
               [('':title'', JStr []), ('':completed'', JBool False),
                ('':updatedAt'', JStr ''2024-01-01T00:00:00.999Z'')],
             ExpressionAttributeNames = Some [(''#title'', ''title'')],
             ReturnValues = ''ALL_NEW''\<rparr>]\<close>
proof -
  have h: "path_id delete_no_id = None" "httpMethod delete_no_id = ''DELETE''"
    "path_id put_no_id = None" "httpMethod put_no_id = ''PUT''"
    "JSON_parse example_env (body_text put_no_id)
       = Inr (JObj [(''title'', JStr []), (''completed'', JBool False)])"
    by (simp_all add: delete_no_id_def put_no_id_def path_id_def example_env_def
        example_parse_def body_text_def)
  note a = missing_identifier_reaches_store [OF h(1), of example_env start start,
      THEN conjunct1]
  note b = missing_identifier_reaches_store [OF h(3), of example_env start start
      "JObj [(''title'', JStr []), (''completed'', JBool False)]" "JStr []" JUndefined
      "JBool False", THEN conjunct2, THEN conjunct2]
  have c1: "store_calls (snd (main example_env delete_no_id start))
       = [DeleteCommand ''Todos'' None ''attribute_exists(todoId)'']"
    using a h(2) by (simp add: example_defs)
  have c2: "store_calls (snd (main example_env put_no_id start))
       = [UpdateCommand
            \<lparr>TableName = ''Todos'', Key = None,
             UpdateExpression =
               ''SET #title = :title, completed = :completed, updatedAt = :updatedAt'',
             ExpressionAttributeValues =
               [('':title'', JStr []), ('':completed'', JBool False),
                ('':updatedAt'', JStr ''2024-01-01T00:00:00.999Z'')],
             ExpressionAttributeNames = Some [(''#title'', ''title'')],
             ReturnValues = ''ALL_NEW''\<rparr>]"
    using b h(4,5) by (simp add: update_command_def update_fields_def example_defs)
  show ?thesis using h c1 c2 by (intro conjI)
qed

subsection \<open>Failures\<close>

lemma createTodo_status:
  "fst (createTodo e ev w) = Inr r \<Longrightarrow> statusCode r \<in> {201, 400}"
  by (auto simp: createTodo_def Let_def send_def uuidv4_def new_Date_def status_createResponse
      split: sum.splits if_splits prod.splits)

lemma getTodo_status:
  "fst (getTodo e i w) = Inr r \<Longrightarrow> statusCode r \<in> {200, 404}"
  by (auto simp: getTodo_def Let_def send_def status_createResponse
      split: sum.splits if_splits prod.splits)

lemma listTodos_status:
  "fst (listTodos e w) = Inr r \<Longrightarrow> statusCode r = 200"
  by (auto simp: listTodos_def Let_def send_def status_createResponse
      split: sum.splits if_splits prod.splits)

lemma updateTodo_status:
  "fst (updateTodo e i ev w) = Inr r \<Longrightarrow> statusCode r \<in> {200, 400, 404}"
  by (auto simp: updateTodo_def Let_def send_def new_Date_def status_createResponse
      split: sum.splits if_splits prod.splits)

lemma deleteTodo_status:
  "fst (deleteTodo e i w) = Inr r \<Longrightarrow> statusCode r \<in> {204, 404}"
  by (auto simp: deleteTodo_def Let_def send_def status_createResponse
      split: sum.splits if_splits prod.splits)

lemma dispatch_status:
  "fst (dispatch e m i ev w) = Inr r \<Longrightarrow> statusCode r \<in> {200, 201, 204, 400, 404, 405}"
  by (auto simp: dispatch_def status_createResponse split: if_splits option.splits
      dest: createTodo_status getTodo_status listTodos_status updateTodo_status
        deleteTodo_status)

lemma createTodo_store_failure:
  "store_calls (snd (createTodo e ev w)) = store_calls w @ [c] \<Longrightarrow> dynamoDb e c = Inl err \<Longrightarrow>
   fst (createTodo e ev w) = Inl err"
  by (auto simp: createTodo_def Let_def send_def uuidv4_def new_Date_def
      split: sum.splits if_splits prod.splits)

lemma getTodo_store_failure:
  "store_calls (snd (getTodo e i w)) = store_calls w @ [c] \<Longrightarrow> dynamoDb e c = Inl err \<Longrightarrow>
   fst (getTodo e i w) = Inl err"
  by (auto simp: getTodo_def Let_def send_def split: sum.splits if_splits prod.splits)

lemma listTodos_store_failure:
  "store_calls (snd (listTodos e w)) = store_calls w @ [c] \<Longrightarrow> dynamoDb e c = Inl err \<Longrightarrow>
   fst (listTodos e w) = Inl err"
  by (auto simp: listTodos_def Let_def send_def split: sum.splits if_splits prod.splits)

lemma updateTodo_store_failure:
  "store_calls (snd (updateTodo e i ev w)) = store_calls w @ [c] \<Longrightarrow> dynamoDb e c = Inl err \<Longrightarrow>
   \<not> not_found c err \<Longrightarrow> fst (updateTodo e i ev w) = Inl err"
  by (auto simp: updateTodo_def Let_def send_def new_Date_def
      split: sum.splits if_splits prod.splits)

lemma deleteTodo_store_failure:
  "store_calls (snd (deleteTodo e i w)) = store_calls w @ [c] \<Longrightarrow> dynamoDb e c = Inl err \<Longrightarrow>
   \<not> not_found c err \<Longrightarrow> fst (deleteTodo e i w) = Inl err"
  by (auto simp: deleteTodo_def Let_def send_def split: sum.splits if_splits prod.splits)

lemma dispatch_store_failure:
  "store_calls (snd (dispatch e m i ev w)) = store_calls w @ [c] \<Longrightarrow> dynamoDb e c = Inl err \<Longrightarrow>
   \<not> not_found c err \<Longrightarrow> fst (dispatch e m i ev w) = Inl err"
  by (auto simp: dispatch_def split: if_splits option.splits
      dest: createTodo_store_failure getTodo_store_failure listTodos_store_failure
        updateTodo_store_failure deleteTodo_store_failure)

lemma main_store_calls:
  "store_calls (snd (main e ev w)) =
     store_calls (snd (dispatch e (httpMethod ev) (path_id ev) ev (received e ev w)))"
  by (simp add: main_eq split: sum.splits)

lemma main_caught:
  "fst (dispatch e (httpMethod ev) (path_id ev) ev (received e ev w)) = Inl err \<Longrightarrow>
   fst (main e ev w) = createResponse 500 (JObj [(''error'', JStr ''Internal server error'')])"
  by (simp add: main_eq)

lemma dispatch_parse_failure:
  "m = ''POST'' \<or> m = ''PUT'' \<Longrightarrow> JSON_parse e (body_text ev) = Inl err \<Longrightarrow>
   fst (dispatch e m i ev w) = Inl err"
  by (auto simp: dispatch_def createTodo_def updateTodo_def)

lemma dispatch_null_body:
  "m = ''POST'' \<or> m = ''PUT'' \<Longrightarrow> JSON_parse e (body_text ev) = Inr JNull \<Longrightarrow>
   fst (dispatch e m i ev w) = Inl (TypeError ''null'' ''title'')"
  by (auto simp: dispatch_def createTodo_def updateTodo_def)

text \<open>
  C6. Whatever is thrown while a request is handled is caught by \<^verbatim>\<open>main\<close> and answered
  with status 500 and the body \<^verbatim>\<open>{"error":"Internal server error"}\<close>, which does not depend
  on the error: this covers a request body that cannot be parsed (or parses to \<^verbatim>\<open>null\<close>) on
  create and update, and every store error that the handler does not recognise as
  not-found. Every 500 response is this one, and every request is answered with exactly
  one response whose status is one of 200, 201, 204, 400, 404, 405, 500.
\<close>

theorem failures_become_500:
  \<open>(fst (dispatch e (httpMethod ev) (path_id ev) ev (received e ev w)) = Inl err \<longrightarrow>
       fst (main e ev w) = createResponse 500 (JObj [(''error'', JStr ''Internal server error'')]))
   \<and> ((httpMethod ev = ''POST'' \<or> httpMethod ev = ''PUT'')
        \<and> (JSON_parse e (body_text ev) = Inl err \<or> JSON_parse e (body_text ev) = Inr JNull) \<longrightarrow>
       fst (main e ev w) = createResponse 500 (JObj [(''error'', JStr ''Internal server error'')]))
   \<and> (store_calls (snd (main e ev w)) = store_calls w @ [c] \<and> dynamoDb e c = Inl err
        \<and> \<not> not_found c err \<longrightarrow>
       fst (main e ev w) = createResponse 500 (JObj [(''error'', JStr ''Internal server error'')]))
   \<and> (statusCode (fst (main e ev w)) = 500 \<longrightarrow>
       fst (main e ev w) = createResponse 500 (JObj [(''error'', JStr ''Internal server error'')]))
   \<and> statusCode (fst (main e ev w)) \<in> {200, 201, 204, 400, 404, 405, 500}
   \<and> createResponse 500 (JObj [(''error'', JStr ''Internal server error'')]) =
       \<lparr>statusCode = 500,
        headers = [(''Content-Type'', ''application/json''),
                   (''Access-Control-Allow-Origin'', ''*''),
                   (''Access-Control-Allow-Methods'', ''GET,POST,PUT,DELETE,OPTIONS'')],
        resBody = Some ''{"error":"Internal server error"}''\<rparr>\<close>
proof -
  let ?d = "dispatch e (httpMethod ev) (path_id ev) ev (received e ev w)"
  let ?R = "createResponse 500 (JObj [(''error'', JStr ''Internal server error'')])"
  have 1: "fst ?d = Inl err \<longrightarrow> fst (main e ev w) = ?R"
    by (simp add: main_caught)
  have 2: "(httpMethod ev = ''POST'' \<or> httpMethod ev = ''PUT'')
        \<and> (JSON_parse e (body_text ev) = Inl err \<or> JSON_parse e (body_text ev) = Inr JNull) \<longrightarrow>
       fst (main e ev w) = ?R"
    using dispatch_parse_failure [of "httpMethod ev" e ev err "path_id ev" "received e ev w"]
      dispatch_null_body [of "httpMethod ev" e ev "path_id ev" "received e ev w"]
      main_caught [of e ev w]
    by blast
  have 3: "store_calls (snd (main e ev w)) = store_calls w @ [c] \<and> dynamoDb e c = Inl err
        \<and> \<not> not_found c err \<longrightarrow> fst (main e ev w) = ?R"
  proof (intro impI, elim conjE)
    assume a: "store_calls (snd (main e ev w)) = store_calls w @ [c]" "dynamoDb e c = Inl err"
      "\<not> not_found c err"
    have "store_calls (snd ?d) = store_calls (received e ev w) @ [c]"
      using a(1) by (simp add: main_store_calls)
    from dispatch_store_failure [OF this a(2,3)] show "fst (main e ev w) = ?R"
      by (rule main_caught)
  qed
  have 4: "statusCode (fst (main e ev w)) = 500 \<longrightarrow> fst (main e ev w) = ?R"
  proof (cases "fst ?d")
    case (Inl x)
    then show ?thesis by (simp add: main_caught)
  next
    case (Inr r)
    from dispatch_status [OF Inr] Inr show ?thesis by (auto simp: main_eq)
  qed
  have 5: "statusCode (fst (main e ev w)) \<in> {200, 201, 204, 400, 404, 405, 500}"
  proof (cases "fst ?d")
    case (Inl x)
    then show ?thesis by (simp add: main_caught status_createResponse)
  next
    case (Inr r)
    from dispatch_status [OF Inr] Inr show ?thesis by (auto simp: main_eq)
  qed
  have 6: \<open>?R =
       \<lparr>statusCode = 500,
        headers = [(''Content-Type'', ''application/json''),
                   (''Access-Control-Allow-Origin'', ''*''),
                   (''Access-Control-Allow-Methods'', ''GET,POST,PUT,DELETE,OPTIONS'')],
        resBody = Some ''{"error":"Internal server error"}''\<rparr>\<close>
    by (simp add: createResponse_def JSON_stringify_def quote_def escape_def)
  from 1 2 3 4 5 6 show ?thesis by (intro conjI)
qed

theorem failures_become_500_witness:
  \<open>httpMethod post_malformed = ''POST''
   \<and> JSON_parse example_env (body_text post_malformed)
       = Inl (Error ''SyntaxError'' ''Unexpected token'' [])
   \<and> fst (dispatch example_env (httpMethod post_malformed) (path_id post_malformed)
            post_malformed (received example_env post_malformed start))
       = Inl (Error ''SyntaxError'' ''Unexpected token'' [])
   \<and> statusCode (fst (main example_env post_malformed start)) = 500
   \<and> resBody (fst (main example_env post_malformed start))
       = Some ''{"error":"Internal server error"}''
   \<and> store_calls (snd (main (example_env\<lparr>dynamoDb := store_rejects\<rparr>) get_list start))
       = store_calls start @ [ScanCommand ''Todos'']
   \<and> dynamoDb (example_env\<lparr>dynamoDb := store_rejects\<rparr>) (ScanCommand ''Todos'')
       = Inl (Error ''Error'' ''Database error'' [])
   \<and> \<not> not_found (ScanCommand ''Todos'') (Error ''Error'' ''Database error'' [])
   \<and> statusCode (fst (main (example_env\<lparr>dynamoDb := store_rejects\<rparr>) get_list start)) = 500
   \<and> resBody (fst (main (example_env\<lparr>dynamoDb := store_rejects\<rparr>) get_list start))
       = Some ''{"error":"Internal server error"}''\<close>
proof -
  let ?e = "example_env\<lparr>dynamoDb := store_rejects\<rparr>"
  let ?err = "Error ''SyntaxError'' ''Unexpected token'' []"
  let ?db = "Error ''Error'' ''Database error'' []"
  have h: "httpMethod post_malformed = ''POST''"
    "JSON_parse example_env (body_text post_malformed) = Inl ?err"
    by (simp_all add: post_malformed_def example_env_def example_parse_def body_text_def)
  have d: "fst (dispatch example_env (httpMethod post_malformed) (path_id post_malformed)
            post_malformed (received example_env post_malformed start)) = Inl ?err"
    using h by (simp add: dispatch_def createTodo_def)
  have g: "httpMethod get_list = ''GET''" "path_id get_list = None \<or> path_id get_list = Some []"
    by (simp_all add: get_list_def path_id_def)
  have s: "store_calls (snd (main ?e get_list start)) = store_calls start @ [ScanCommand ''Todos'']"
    by (simp add: main_GET_list [OF g] listTodos_eq example_env_def)
  have r: "dynamoDb ?e (ScanCommand ''Todos'') = Inl ?db"
    by (simp add: store_rejects_def)
  have n: "\<not> not_found (ScanCommand ''Todos'') ?db"
    by simp
  note a = failures_become_500 [of example_env post_malformed start ?err]
  note b = failures_become_500 [of ?e get_list start ?db "ScanCommand ''Todos''"]
  have lit: \<open>createResponse 500 (JObj [(''error'', JStr ''Internal server error'')]) =
       \<lparr>statusCode = 500,
        headers = [(''Content-Type'', ''application/json''),
                   (''Access-Control-Allow-Origin'', ''*''),
                   (''Access-Control-Allow-Methods'', ''GET,POST,PUT,DELETE,OPTIONS'')],
        resBody = Some ''{"error":"Internal server error"}''\<rparr>\<close>
    using a by blast
  have m1: "fst (main example_env post_malformed start)
              = createResponse 500 (JObj [(''error'', JStr ''Internal server error'')])"
    using a [THEN conjunct2, THEN conjunct1] h by blast
  have m2: "fst (main ?e get_list start)
              = createResponse 500 (JObj [(''error'', JStr ''Internal server error'')])"
    using b [THEN conjunct2, THEN conjunct2, THEN conjunct1] s r n by blast
  have c1: "statusCode (fst (main example_env post_malformed start)) = 500"
    and c2: \<open>resBody (fst (main example_env post_malformed start))
               = Some ''{"error":"Internal server error"}''\<close>
    unfolding m1 lit by simp_all
  have c3: "statusCode (fst (main ?e get_list start)) = 500"
    and c4: \<open>resBody (fst (main ?e get_list start)) = Some ''{"error":"Internal server error"}''\<close>
    unfolding m2 lit by simp_all
  show ?thesis
    using h d c1 c2 s r n c3 c4 by (intro conjI)
qed

end
